theory Spec2Isabelle
  imports Main
begin

section \<open>Values, promises and the nodes of the document\<close>

text \<open>
  The modal host of \<^verbatim>\<open>src/modal/ModalHost.tsx\<close> is a React component. Its state
  (\<^verbatim>\<open>useState\<close>), its refs (\<^verbatim>\<open>useRef\<close>), the module variable
  \<^verbatim>\<open>externalOpenRef\<close>, the promises it created, the focused element of the document
  and the queue of microtasks are the fields of one record. Every function of the
  component takes that record and returns it updated.

  A value of TypeScript type \<^verbatim>\<open>T | null\<close>.
\<close>

datatype 'v nullable = Null | Value 'v

text \<open>
  A promise made by \<^verbatim>\<open>new Promise((resolve) => ...)\<close>. Its \<^verbatim>\<open>resolve\<close> function
  fulfils it at the first call and does nothing at a later one (that is JavaScript's
  promise, not code of the repository). The host never rejects such a promise.
\<close>

datatype 'v promise_state = Unsettled | Fulfilled "'v nullable"

text \<open>What a call of \<^verbatim>\<open>openWithRender\<close> hands back: a promise of the store, or
  \<^verbatim>\<open>Promise.reject(new Error(msg))\<close>.\<close>

datatype future = RejectedWith string | PromiseRef nat

text \<open>The state \<^verbatim>\<open>"open" | "closed" | "unmounted"\<close>.\<close>

datatype visual = VOpen | VClosed | VUnmounted

text \<open>
  The nodes of the document, as the JSX of \<^verbatim>\<open>ModalProvider\<close> nests them (lines 239-267):
  the overlay \<^verbatim>\<open>div\<close>, inside it the content \<^verbatim>\<open>div\<close> that \<^verbatim>\<open>dialogRef\<close> points to,
  inside it the \<^verbatim>\<open>div\<close> of \<^verbatim>\<open>scrollContentRef\<close>, inside it what the render callback
  produced. \<open>Outside n\<close> is a node of the page behind the layer.
\<close>

datatype node = Overlay | Dialog | ScrollContent | Content nat | Outside nat

fun ancestors_or_self :: "node \<Rightarrow> node list" where
  "ancestors_or_self Overlay = [Overlay]"
| "ancestors_or_self Dialog = [Dialog, Overlay]"
| "ancestors_or_self ScrollContent = [ScrollContent, Dialog, Overlay]"
| "ancestors_or_self (Content n) = [Content n, ScrollContent, Dialog, Overlay]"
| "ancestors_or_self (Outside n) = [Outside n]"

text \<open>\<^verbatim>\<open>a.contains(b)\<close> for \<open>a\<close> one of the three \<^verbatim>\<open>div\<close>s of the layer: \<open>a\<close> is \<open>b\<close>
  or an ancestor of \<open>b\<close>.\<close>

definition contains :: "node \<Rightarrow> node \<Rightarrow> bool" where
  "contains a b = (a \<in> set (ancestors_or_self b))"

text \<open>\<^verbatim>\<open>type PendingRequest = { render; resolvePromise }\<close>. The render callback is named by
  a number; \<open>resolvePromise\<close> is the index, in the store, of the promise whose
  \<^verbatim>\<open>resolve\<close> function the field holds.\<close>

record PendingRequest =
  render :: nat
  resolvePromise :: nat

text \<open>The only value \<^verbatim>\<open>setExternalOpen\<close> is ever given besides \<^verbatim>\<open>null\<close>: the
  \<^verbatim>\<open>open\<close> of the mounted provider.\<close>

datatype open_fn = ProviderOpen

text \<open>The one callback the host passes to \<^verbatim>\<open>queueMicrotask\<close> (lines 148-151, 168-171,
  220-223).\<close>

datatype microtask = RestoreFocus

text \<open>What a turn of the event loop did, in the order it did it.\<close>

datatype 'v effect =
    CallResolvePromise nat "'v nullable"
  | SetPending "PendingRequest option"
  | SetIsMounted bool
  | SetVisualState visual
  | QueueMicrotask
  | CallFocus node
  | PreventDefault

record 'v world =
  externalOpenRef :: "open_fn option"
  pending :: "PendingRequest option"
  isMounted :: bool
  visualState :: visual
  dialogRef :: "node option"
  scrollContentRef :: "node option"
  previousActiveElementRef :: "node option"
  restoreFocusOnCloseRef :: bool
  prefersReducedMotionRef :: bool
  renderedIsOpen :: bool
  promises :: "'v promise_state list"
  activeElement :: "node option"
  microtasks :: "microtask list"
  effects :: "'v effect list"

section \<open>The primitive operations\<close>

definition emit :: "'v effect \<Rightarrow> 'v world \<Rightarrow> 'v world" where
  "emit e w = w\<lparr>effects := effects w @ [e]\<rparr>"

text \<open>The \<^verbatim>\<open>resolve\<close> function of promise \<open>pid\<close>, called with \<open>v\<close>: only an unsettled
  promise changes.\<close>

definition fulfil :: "nat \<Rightarrow> 'v nullable \<Rightarrow> 'v promise_state list \<Rightarrow> 'v promise_state list" where
  "fulfil pid v ps =
     (if pid < length ps \<and> ps ! pid = Unsettled then ps[pid := Fulfilled v] else ps)"

definition callResolvePromise :: "nat \<Rightarrow> 'v nullable \<Rightarrow> 'v world \<Rightarrow> 'v world" where
  "callResolvePromise pid v w =
     emit (CallResolvePromise pid v) (w\<lparr>promises := fulfil pid v (promises w)\<rparr>)"

definition setPending :: "PendingRequest option \<Rightarrow> 'v world \<Rightarrow> 'v world" where
  "setPending p w = emit (SetPending p) (w\<lparr>pending := p\<rparr>)"

definition setIsMounted :: "bool \<Rightarrow> 'v world \<Rightarrow> 'v world" where
  "setIsMounted b w = emit (SetIsMounted b) (w\<lparr>isMounted := b\<rparr>)"

definition setVisualState :: "visual \<Rightarrow> 'v world \<Rightarrow> 'v world" where
  "setVisualState s w = emit (SetVisualState s) (w\<lparr>visualState := s\<rparr>)"

definition queueMicrotask :: "microtask \<Rightarrow> 'v world \<Rightarrow> 'v world" where
  "queueMicrotask m w = emit QueueMicrotask (w\<lparr>microtasks := microtasks w @ [m]\<rparr>)"

definition preventDefault :: "'v world \<Rightarrow> 'v world" where
  "preventDefault w = emit PreventDefault w"

text \<open>\<^verbatim>\<open>focus()\<close> called on a node that takes the focus: it becomes
  \<^verbatim>\<open>document.activeElement\<close>. The previous element that the host restores and the input
  that the form focuses are taken to be such nodes.\<close>

definition focus :: "node \<Rightarrow> 'v world \<Rightarrow> 'v world" where
  "focus n w = emit (CallFocus n) (w\<lparr>activeElement := Some n\<rparr>)"

definition setExternalOpen :: "open_fn option \<Rightarrow> 'v world \<Rightarrow> 'v world" where
  "setExternalOpen fn w = w\<lparr>externalOpenRef := fn\<rparr>"

section \<open>The provider\<close>

text \<open>\<^verbatim>\<open>open\<close> (lines 61-72). The executor of \<^verbatim>\<open>new Promise\<close> runs at once.\<close>

definition open_modal :: "nat \<Rightarrow> 'v world \<Rightarrow> future \<times> 'v world" where
  "open_modal rnd w =
     (let pid = length (promises w);
          w1 = w\<lparr>promises := promises w @ [Unsettled]\<rparr>;
          w2 = w1\<lparr>previousActiveElementRef := activeElement w1\<rparr>;
          w3 = setPending (Some \<lparr>render = rnd, resolvePromise = pid\<rparr>) w2;
          w4 = setIsMounted True w3;
          w5 = setVisualState VOpen w4
      in (PromiseRef pid, w5))"

text \<open>\<^verbatim>\<open>openWithRender\<close> (lines 31-36).\<close>

definition openWithRender :: "nat \<Rightarrow> 'v world \<Rightarrow> future \<times> 'v world" where
  "openWithRender rnd w =
     (case externalOpenRef w of
        None \<Rightarrow> (RejectedWith ''ModalProvider is not mounted'', w)
      | Some ProviderOpen \<Rightarrow> open_modal rnd w)"

text \<open>
  The statements of lines 144-152, repeated at 164-172 and at 216-224: the unmount path.
\<close>

definition unmountPath :: "'v world \<Rightarrow> 'v world" where
  "unmountPath w =
     (let w1 = setIsMounted False w;
          w2 = setVisualState VUnmounted w1;
          w3 = setPending None w2
      in if restoreFocusOnCloseRef w3 then queueMicrotask RestoreFocus w3 else w3)"

text \<open>
  \<^verbatim>\<open>resolve\<close> (lines 136-156) and \<^verbatim>\<open>cancel\<close> (lines 158-174). Both are made by
  \<^verbatim>\<open>useCallback(..., [pending])\<close>: the \<^verbatim>\<open>pending\<close> they read is the one of the render
  that made them, the first argument here. The calls of \<^verbatim>\<open>setState\<close> take effect at the
  next render and are applied to the record at once; no function reads a state
  variable back after setting it.
\<close>

definition resolve :: "PendingRequest option \<Rightarrow> 'v nullable \<Rightarrow> 'v world \<Rightarrow> 'v world" where
  "resolve p v w =
     (case p of
        None \<Rightarrow> w
      | Some r \<Rightarrow>
          (let w1 = callResolvePromise (resolvePromise r) v w;
               w2 = w1\<lparr>restoreFocusOnCloseRef := True\<rparr>;
               w3 = setVisualState VClosed w2
           in if prefersReducedMotionRef w3 then unmountPath w3 else w3))"

definition cancel :: "PendingRequest option \<Rightarrow> 'v world \<Rightarrow> 'v world" where
  "cancel p w =
     (case p of
        None \<Rightarrow> w
      | Some r \<Rightarrow>
          (let w1 = callResolvePromise (resolvePromise r) Null w;
               w2 = w1\<lparr>restoreFocusOnCloseRef := True\<rparr>;
               w3 = setVisualState VClosed w2
           in if prefersReducedMotionRef w3 then unmountPath w3 else w3))"

text \<open>The callback of lines 148-151: \<^verbatim>\<open>previousActiveElementRef.current?.focus?.()\<close>,
  then the flag is cleared.\<close>

fun runMicrotask :: "microtask \<Rightarrow> 'v world \<Rightarrow> 'v world" where
  "runMicrotask RestoreFocus w =
     (let w1 = (case previousActiveElementRef w of None \<Rightarrow> w | Some n \<Rightarrow> focus n w)
      in w1\<lparr>restoreFocusOnCloseRef := False\<rparr>)"

text \<open>\<^verbatim>\<open>handleOverlayClick\<close> (lines 128-130), with the event's target and current target.\<close>

definition handleOverlayClick ::
  "PendingRequest option \<Rightarrow> node \<Rightarrow> node \<Rightarrow> 'v world \<Rightarrow> 'v world" where
  "handleOverlayClick p target currentTarget w =
     (if target = currentTarget then cancel p w else w)"

text \<open>\<^verbatim>\<open>handleOverlayAnimationEnd\<close> (lines 213-226). The function is made anew at every
  render; \<open>vs\<close> is the \<^verbatim>\<open>visualState\<close> of that render.\<close>

definition handleOverlayAnimationEnd ::
  "visual \<Rightarrow> node \<Rightarrow> node \<Rightarrow> 'v world \<Rightarrow> 'v world" where
  "handleOverlayAnimationEnd vs target currentTarget w =
     (if target \<noteq> currentTarget then w
      else if vs = VClosed then unmountPath w
      else w)"

section \<open>The focus trap\<close>

text \<open>
  What \<^verbatim>\<open>handleKeydown\<close> reads of an element: its tag name, the attributes the selector
  of line 102 and the filter of line 106 test (\<^verbatim>\<open>href\<close>, \<^verbatim>\<open>disabled\<close>, \<^verbatim>\<open>tabindex\<close>,
  \<^verbatim>\<open>aria-hidden\<close>), and the properties \<^verbatim>\<open>tabIndex\<close> and \<^verbatim>\<open>hidden\<close> as the browser
  reports them. \<open>can_focus\<close> says whether a call of \<^verbatim>\<open>focus()\<close> on the element moves the
  focus to it, which the browser decides: a disabled form control, an input of type
  \<^verbatim>\<open>hidden\<close> or an element that is not rendered takes no focus.
\<close>

record element =
  el_node :: node
  tagName :: string
  has_href :: bool
  has_disabled :: bool
  tabindex_attr :: "string option"
  has_aria_hidden :: bool
  tabIndex :: int
  hidden :: bool
  can_focus :: bool

text \<open>The selector \<^verbatim>\<open>a[href], button:not([disabled]), textarea, input:not([disabled]),
  select, [tabindex]:not([tabindex="-1"])\<close>.\<close>

definition matches_selector :: "element \<Rightarrow> bool" where
  "matches_selector el =
     ((tagName el = ''a'' \<and> has_href el) \<or>
      (tagName el = ''button'' \<and> \<not> has_disabled el) \<or>
      tagName el = ''textarea'' \<or>
      (tagName el = ''input'' \<and> \<not> has_disabled el) \<or>
      tagName el = ''select'' \<or>
      (tabindex_attr el \<noteq> None \<and> tabindex_attr el \<noteq> Some ''-1''))"

text \<open>Lines 100-107. \<open>descendants\<close> are the elements below the container, in document
  order, at the moment of the event: \<^verbatim>\<open>querySelectorAll\<close> keeps that order.\<close>

definition tabbables :: "element list \<Rightarrow> element list" where
  "tabbables descendants =
     filter (\<lambda>el. \<not> has_aria_hidden el \<and> tabIndex el \<noteq> -1 \<and> \<not> hidden el)
       (filter matches_selector descendants)"

text \<open>\<^verbatim>\<open>first.focus()\<close> and \<^verbatim>\<open>last.focus()\<close> of lines 120 and 123: the call is made
  whatever the element is, and moves the focus only to an element that takes it.\<close>

definition focusElement :: "element \<Rightarrow> 'v world \<Rightarrow> 'v world" where
  "focusElement el w =
     (if can_focus el then focus (el_node el) w else emit (CallFocus (el_node el)) w)"

text \<open>\<^verbatim>\<open>handleKeydown\<close> (lines 89-126). \<open>p\<close> is the \<^verbatim>\<open>pending\<close> that the \<^verbatim>\<open>cancel\<close> of
  this render closes over.\<close>

definition handleKeydown ::
  "PendingRequest option \<Rightarrow> string \<Rightarrow> bool \<Rightarrow> element list \<Rightarrow> 'v world \<Rightarrow> 'v world" where
  "handleKeydown p key shiftKey descendants w =
     (if key = ''Escape'' \<or> key = ''Esc'' then cancel p (preventDefault w)
      else if key = ''Tab'' then
        (case dialogRef w of
           None \<Rightarrow> w
         | Some container \<Rightarrow>
             (let tabs = tabbables descendants in
              if length tabs = 0 then preventDefault w
              else
                (let first = hd tabs;
                     lst = last tabs;
                     active = activeElement w
                 in if \<not> shiftKey \<and> active = Some (el_node lst)
                    then focusElement first (preventDefault w)
                    else if shiftKey \<and> (active = Some (el_node first) \<or> active = Some container)
                    then focusElement lst (preventDefault w)
                    else w)))
      else w)"

section \<open>Scroll containment\<close>

text \<open>Lines 183-189. The argument is \<^verbatim>\<open>EventTarget | null\<close>: \<open>None\<close> is a target that is
  not a \<^verbatim>\<open>Node\<close>.\<close>

definition isInsideDialog :: "node option \<Rightarrow> 'v world \<Rightarrow> bool" where
  "isInsideDialog nd w =
     (case nd of
        None \<Rightarrow> False
      | Some n \<Rightarrow> (case dialogRef w of None \<Rightarrow> False | Some d \<Rightarrow> contains d n))"

definition isInsideScrollContent :: "node option \<Rightarrow> 'v world \<Rightarrow> bool" where
  "isInsideScrollContent nd w =
     (case nd of
        None \<Rightarrow> False
      | Some n \<Rightarrow> (case scrollContentRef w of None \<Rightarrow> False | Some d \<Rightarrow> contains d n))"

text \<open>Lines 191-201.\<close>

definition handleWheelCapture :: "node option \<Rightarrow> 'v world \<Rightarrow> 'v world" where
  "handleWheelCapture target w =
     (if \<not> isInsideDialog target w \<or> \<not> isInsideScrollContent target w
      then preventDefault w else w)"

definition handleTouchMoveCapture :: "node option \<Rightarrow> 'v world \<Rightarrow> 'v world" where
  "handleTouchMoveCapture target w =
     (if \<not> isInsideDialog target w \<or> \<not> isInsideScrollContent target w
      then preventDefault w else w)"

section \<open>Turns of the event loop\<close>

text \<open>
  After the handlers of an event have run, React renders again. The effect of lines
  203-211 depends on \<^verbatim>\<open>isOpen\<close>: it runs when \<^verbatim>\<open>isOpen\<close> differs from the one of the
  render before. The layer, and with it the two refs, is there exactly when
  \<^verbatim>\<open>isMounted\<close> holds (lines 228, 239, 258, 261).
\<close>

definition commit :: "'v world \<Rightarrow> 'v world" where
  "commit w =
     (let isOpen = (pending w \<noteq> None);
          w1 = (if isOpen \<noteq> renderedIsOpen w \<and> isOpen
                then setVisualState VOpen (setIsMounted True w) else w)
      in w1\<lparr>renderedIsOpen := isOpen,
             dialogRef := (if isMounted w1 then Some Dialog else None),
             scrollContentRef := (if isMounted w1 then Some ScrollContent else None)\<rparr>)"

text \<open>The microtasks queued in a turn run when its handlers have returned, before the
  next event.\<close>

definition drain :: "'v world \<Rightarrow> 'v world" where
  "drain w = fold runMicrotask (microtasks w) (w\<lparr>microtasks := []\<rparr>)"

text \<open>
  The events of a mounted provider. A key goes down on \<open>target\<close> with the elements
  below the container as they are then; a click, an end of animation, a wheel or a
  touch move has its target, a node of the layer; \<^verbatim>\<open>EvMediaChange\<close> is the \<^verbatim>\<open>change\<close>
  event of the media query with its new \<^verbatim>\<open>matches\<close>.

  The controls reach a content only through \<^verbatim>\<open>pending?.render(controls)\<close> (line 264),
  so every control a content holds was made in a render whose \<^verbatim>\<open>pending\<close> was a
  request, and it keeps that \<^verbatim>\<open>pending\<close> for good (\<^verbatim>\<open>useCallback(..., [pending])\<close>).
  \<^verbatim>\<open>EvResolve\<close> and \<^verbatim>\<open>EvCancel\<close> are the content that the last render shows calling the
  controls of that render; when that render had no \<^verbatim>\<open>pending\<close> it shows no content and
  there is nothing to call. \<^verbatim>\<open>EvKeptResolve r\<close> and \<^verbatim>\<open>EvKeptCancel r\<close> are a call of a
  control that was made when \<^verbatim>\<open>pending\<close> was \<open>r\<close> and that the content kept, whatever the
  state is by now.
\<close>

datatype 'v event =
    EvOpenWithRender nat
  | EvResolve "'v nullable"
  | EvCancel
  | EvKeptResolve PendingRequest "'v nullable"
  | EvKeptCancel PendingRequest
  | EvKeydown string bool node "element list"
  | EvClick node
  | EvAnimationEnd node
  | EvWheel "node option"
  | EvTouchMove "node option"
  | EvMediaChange bool

text \<open>
  Which handlers an event reaches. All handlers of one event are those of the last
  render, so they share its \<^verbatim>\<open>pending\<close> and \<^verbatim>\<open>visualState\<close>.
  \<^item> \<^verbatim>\<open>onKeyDown={handleKeydown}\<close> is on the content \<^verbatim>\<open>div\<close> (line 257) and on the
    overlay (line 245), and the handler does not stop propagation: a key that goes
    down inside the content \<^verbatim>\<open>div\<close> runs it twice, one that goes down on the overlay
    once.
  \<^item> A click inside the content \<^verbatim>\<open>div\<close> stops at \<^verbatim>\<open>stopPropagation\<close> (lines 132-134,
    256); a click on the overlay reaches \<^verbatim>\<open>handleOverlayClick\<close>.
  \<^item> \<^verbatim>\<open>animationend\<close> bubbles to the overlay from every node of the layer.
  \<^item> The layer's handlers exist only while the layer is rendered.
  \<^item> A control that a content kept can be called at any time.
\<close>

fun dispatch :: "'v event \<Rightarrow> 'v world \<Rightarrow> 'v world" where
  "dispatch (EvOpenWithRender rnd) w = snd (openWithRender rnd w)"
| "dispatch (EvResolve v) w = resolve (pending w) v w"
| "dispatch EvCancel w = cancel (pending w) w"
| "dispatch (EvKeptResolve r v) w = resolve (Some r) v w"
| "dispatch (EvKeptCancel r) w = cancel (Some r) w"
| "dispatch (EvKeydown key shiftKey target descendants) w =
     (if \<not> isMounted w then w
      else if contains Dialog target
      then handleKeydown (pending w) key shiftKey descendants
             (handleKeydown (pending w) key shiftKey descendants w)
      else if target = Overlay
      then handleKeydown (pending w) key shiftKey descendants w
      else w)"
| "dispatch (EvClick target) w =
     (if \<not> isMounted w then w
      else if contains Dialog target then w
      else if contains Overlay target then handleOverlayClick (pending w) target Overlay w
      else w)"
| "dispatch (EvAnimationEnd target) w =
     (if \<not> isMounted w then w
      else if contains Overlay target
      then handleOverlayAnimationEnd (visualState w) target Overlay w
      else w)"
| "dispatch (EvWheel target) w = (if \<not> isMounted w then w else handleWheelCapture target w)"
| "dispatch (EvTouchMove target) w =
     (if \<not> isMounted w then w else handleTouchMoveCapture target w)"
| "dispatch (EvMediaChange m) w = w\<lparr>prefersReducedMotionRef := m\<rparr>"

text \<open>One turn: the handlers, the render, the microtasks. \<open>effects\<close> holds what this
  turn did.\<close>

definition step :: "'v event \<Rightarrow> 'v world \<Rightarrow> 'v world" where
  "step e w = drain (commit (dispatch e (w\<lparr>effects := []\<rparr>)))"

fun run :: "'v event list \<Rightarrow> 'v world \<Rightarrow> 'v world" where
  "run [] w = w"
| "run (e # es) w = run es (step e w)"

text \<open>Before a provider is mounted: the initial values of lines 25 and 50-59.\<close>

definition initial :: "node option \<Rightarrow> 'v world" where
  "initial focused =
     \<lparr>externalOpenRef = None, pending = None, isMounted = False, visualState = VUnmounted,
      dialogRef = None, scrollContentRef = None, previousActiveElementRef = None,
      restoreFocusOnCloseRef = False, prefersReducedMotionRef = False,
      renderedIsOpen = False, promises = [], activeElement = focused, microtasks = [],
      effects = []\<rparr>"

text \<open>Mounting runs the effects of lines 74-87: the provider registers its \<^verbatim>\<open>open\<close>
  and reads the media query.\<close>

definition mount :: "bool \<Rightarrow> 'v world \<Rightarrow> 'v world" where
  "mount mql_matches w =
     (setExternalOpen (Some ProviderOpen) w)\<lparr>prefersReducedMotionRef := mql_matches\<rparr>"

definition mounted :: "bool \<Rightarrow> node option \<Rightarrow> 'v world" where
  "mounted mql_matches focused = mount mql_matches (initial focused)"

section \<open>The form content and the page\<close>

text \<open>
  A JavaScript string is a sequence of UTF-16 code units. \<open>js\<close> reads an ASCII literal
  as one.
\<close>

type_synonym jsstring = "nat list"

definition js :: "string \<Rightarrow> jsstring" where
  "js s = map of_char s"

text \<open>The line terminators of ECMAScript, and what \<^verbatim>\<open>String.prototype.trim\<close> strips:
  white space and line terminators.\<close>

definition isLineTerminator :: "nat \<Rightarrow> bool" where
  "isLineTerminator c = (c = 10 \<or> c = 13 \<or> c = 8232 \<or> c = 8233)"

definition isWhiteSpace :: "nat \<Rightarrow> bool" where
  "isWhiteSpace c =
     (c = 9 \<or> c = 11 \<or> c = 12 \<or> c = 32 \<or> c = 160 \<or> c = 5760 \<or>
      (8192 \<le> c \<and> c \<le> 8202) \<or> c = 8239 \<or> c = 8287 \<or> c = 12288 \<or> c = 65279)"

definition trim :: "jsstring \<Rightarrow> jsstring" where
  "trim s =
     (let strip = dropWhile (\<lambda>c. isWhiteSpace c \<or> isLineTerminator c)
      in rev (strip (rev (strip s))))"

text \<open>
  The fragment of regular expressions that \<^verbatim>\<open>/.+@.+\..+/\<close> is written in: a sequence of
  atoms, each a literal code unit or \<^verbatim>\<open>.\<close> (any code unit but a line terminator), taken
  once or, under \<^verbatim>\<open>+\<close>, once or more. \<open>match_here\<close> says whether the sequence matches
  a prefix of the string; \<^verbatim>\<open>test\<close> looks for a match at any position.
\<close>

datatype atom = Chr nat | Dot

datatype quant = Once | Plus

fun atom_ok :: "atom \<Rightarrow> nat \<Rightarrow> bool" where
  "atom_ok (Chr k) c = (c = k)"
| "atom_ok Dot c = (\<not> isLineTerminator c)"

fun match_here :: "(atom \<times> quant) list \<Rightarrow> jsstring \<Rightarrow> bool" where
  "match_here [] s = True"
| "match_here ((a, q) # ps) [] = False"
| "match_here ((a, Once) # ps) (c # cs) = (atom_ok a c \<and> match_here ps cs)"
| "match_here ((a, Plus) # ps) (c # cs) =
     (atom_ok a c \<and> (match_here ((a, Plus) # ps) cs \<or> match_here ps cs))"

fun regex_test :: "(atom \<times> quant) list \<Rightarrow> jsstring \<Rightarrow> bool" where
  "regex_test ps [] = match_here ps []"
| "regex_test ps (c # cs) = (match_here ps (c # cs) \<or> regex_test ps cs)"

text \<open>\<^verbatim>\<open>isValidEmail\<close> (FormModal, lines 23-25); 64 is \<^verbatim>\<open>@\<close> and 46 is the full stop.\<close>

definition isValidEmail :: "jsstring \<Rightarrow> bool" where
  "isValidEmail v =
     regex_test [(Dot, Plus), (Chr 64, Once), (Dot, Plus), (Chr 46, Once), (Dot, Plus)] v"

text \<open>\<^verbatim>\<open>type FormResult = { email: string }\<close>.\<close>

record FormResult =
  email :: jsstring

text \<open>The two messages \<^verbatim>\<open>handleSubmit\<close> gives \<^verbatim>\<open>setError\<close>: the one of line 31 asks for
  an address, the one of line 36 for a well-formed one.\<close>

datatype form_error = EmailRequired | EmailMalformed

text \<open>The state of \<^verbatim>\<open>FormModal\<close>: \<^verbatim>\<open>email\<close>, \<^verbatim>\<open>error\<close> and the node \<^verbatim>\<open>inputRef\<close> points
  to.\<close>

record form =
  email_state :: jsstring
  error_state :: "form_error option"
  inputRef :: "node option"

text \<open>
  The elements \<^verbatim>\<open>FormModal\<close> renders while it shows no error (lines 49-121), in document
  order, numbered from 0. \<open>plain\<close> is an element with none of the attributes the
  selector tests and the \<^verbatim>\<open>tabIndex\<close> -1 of an element that takes no focus; \<open>control\<close> is
  a button or an input, whose \<^verbatim>\<open>tabIndex\<close> is 0 and which takes the focus. The heading
  carries \<^verbatim>\<open>tabIndex={-1}\<close>, which lets \<^verbatim>\<open>focus()\<close> land on it; the email input is
  element 8.
\<close>

definition plain :: "nat \<Rightarrow> string \<Rightarrow> element" where
  "plain n tg =
     \<lparr>el_node = Content n, tagName = tg, has_href = False, has_disabled = False,
      tabindex_attr = None, has_aria_hidden = False, tabIndex = -1, hidden = False,
      can_focus = False\<rparr>"

definition control :: "nat \<Rightarrow> string \<Rightarrow> element" where
  "control n tg = (plain n tg)\<lparr>tabIndex := 0, can_focus := True\<rparr>"

definition formModalElements :: "element list" where
  "formModalElements =
     [plain 0 ''div'', plain 1 ''div'',
      (plain 2 ''h2'')\<lparr>tabindex_attr := Some ''-1'', can_focus := True\<rparr>,
      control 3 ''button'', plain 4 ''p'', plain 5 ''form'', plain 6 ''label'',
      plain 7 ''span'', control 8 ''input'', plain 9 ''label'', plain 10 ''span'',
      control 11 ''input'', plain 12 ''div'', control 13 ''button'', control 14 ''button'']"

text \<open>\<^verbatim>\<open>handleInputChange\<close> (lines 44-47).\<close>

definition handleInputChange :: "jsstring \<Rightarrow> form \<Rightarrow> form" where
  "handleInputChange v f =
     (let f1 = f\<lparr>email_state := v\<rparr>
      in if error_state f \<noteq> None then f1\<lparr>error_state := None\<rparr> else f1)"

text \<open>\<^verbatim>\<open>inputRef.current?.focus()\<close>.\<close>

definition focusInput :: "form \<Rightarrow> 'v world \<Rightarrow> 'v world" where
  "focusInput f w = (case inputRef f of None \<Rightarrow> w | Some n \<Rightarrow> focus n w)"

text \<open>\<^verbatim>\<open>handleSubmit\<close> (lines 27-42). \<^verbatim>\<open>onResolve\<close> is the \<^verbatim>\<open>resolve\<close> of the controls the
  content was rendered with (openFormModal, lines 4-7); \<open>p\<close> is its \<^verbatim>\<open>pending\<close>.\<close>

definition handleSubmit ::
  "PendingRequest option \<Rightarrow> form \<Rightarrow> FormResult world \<Rightarrow> form \<times> FormResult world" where
  "handleSubmit p f w =
     (let w0 = preventDefault w;
          v = trim (email_state f)
      in if length v = 0
         then (f\<lparr>error_state := Some EmailRequired\<rparr>, focusInput f w0)
         else if \<not> isValidEmail v
         then (f\<lparr>error_state := Some EmailMalformed\<rparr>, focusInput f w0)
         else (f\<lparr>error_state := None\<rparr>, resolve p (Value \<lparr>email = v\<rparr>) w0))"

text \<open>The turn of a \<^verbatim>\<open>submit\<close> event of the form.\<close>

definition submit :: "form \<times> FormResult world \<Rightarrow> form \<times> FormResult world" where
  "submit fw =
     (case fw of (f, w) \<Rightarrow>
        (case handleSubmit (pending w) f (w\<lparr>effects := []\<rparr>) of
           (f', w') \<Rightarrow> (f', drain (commit w'))))"

text \<open>The turn of a \<^verbatim>\<open>change\<close> event of the input.\<close>

definition typeEmail :: "jsstring \<Rightarrow> form \<times> FormResult world \<Rightarrow> form \<times> FormResult world" where
  "typeEmail v fw = (case fw of (f, w) \<Rightarrow> (handleInputChange v f, w))"

text \<open>\<^verbatim>\<open>FormModal\<close> as it is first rendered (lines 16-17).\<close>

definition newForm :: form where
  "newForm = \<lparr>email_state = [], error_state = None, inputRef = Some (Content 8)\<rparr>"

text \<open>What \<^verbatim>\<open>handleOpen\<close> of the page (ModalFormPage, lines 7-10) gives \<^verbatim>\<open>setResult\<close>
  once the promise is fulfilled with \<open>res\<close>: \<^verbatim>\<open>res ? res.email : null\<close>.\<close>

definition handleOpen :: "FormResult nullable \<Rightarrow> jsstring nullable" where
  "handleOpen res = (case res of Null \<Rightarrow> Null | Value r \<Rightarrow> Value (email r))"

section \<open>What the claims speak of\<close>

text \<open>The values a turn gave to \<^verbatim>\<open>setVisualState\<close>, in the order of the calls.\<close>

fun visual_sets :: "'v effect list \<Rightarrow> visual list" where
  "visual_sets [] = []"
| "visual_sets (SetVisualState s # es) = s # visual_sets es"
| "visual_sets (e # es) = visual_sets es"

text \<open>Only the unmount path calls \<^verbatim>\<open>setVisualState("unmounted")\<close>: the turn that led to
  \<open>w\<close> ran it when that call is among its effects.\<close>

definition unmountPathRan :: "'v world \<Rightarrow> bool" where
  "unmountPathRan w = (VUnmounted \<in> set (visual_sets (effects w)))"

text \<open>The directed path \<^verbatim>\<open>unmounted\<close>, \<^verbatim>\<open>open\<close>, \<^verbatim>\<open>closed\<close>, \<^verbatim>\<open>unmounted\<close>.\<close>

definition on_path :: "visual \<Rightarrow> visual \<Rightarrow> bool" where
  "on_path a b =
     ((a = VUnmounted \<and> b = VOpen) \<or> (a = VOpen \<and> b = VClosed) \<or>
      (a = VClosed \<and> b = VUnmounted))"

text \<open>A sequence of values follows the path from \<open>a\<close> when each value is the one before
  it, set again, or the next one on the path.\<close>

fun follows_path :: "visual \<Rightarrow> visual list \<Rightarrow> bool" where
  "follows_path a [] = True"
| "follows_path a (b # bs) = ((b = a \<or> on_path a b) \<and> follows_path b bs)"

text \<open>All the values a run gave to \<^verbatim>\<open>setVisualState\<close>, turn after turn.\<close>

fun visual_trace :: "'v event list \<Rightarrow> 'v world \<Rightarrow> visual list" where
  "visual_trace [] w = []"
| "visual_trace (e # es) w = visual_sets (effects (step e w)) @ visual_trace es (step e w)"

text \<open>
  The events of an orderly run. \<^verbatim>\<open>openWithRender\<close> is called only while there is no
  \<^verbatim>\<open>PendingRequest\<close>; a control that was kept is called only while its request is the
  \<^verbatim>\<open>PendingRequest\<close>; and no Escape goes down inside the content \<^verbatim>\<open>div\<close>, where the key
  handler runs twice, while the reduced-motion preference is on.
\<close>

fun orderly :: "'v event \<Rightarrow> 'v world \<Rightarrow> bool" where
  "orderly (EvOpenWithRender rnd) w = (pending w = None)"
| "orderly (EvKeptResolve r v) w = (pending w = Some r)"
| "orderly (EvKeptCancel r) w = (pending w = Some r)"
| "orderly (EvKeydown key shiftKey target descendants) w =
     (\<not> (prefersReducedMotionRef w \<and> contains Dialog target \<and>
         (key = ''Escape'' \<or> key = ''Esc'')))"
| "orderly e w = True"

fun orderly_run :: "'v event list \<Rightarrow> 'v world \<Rightarrow> bool" where
  "orderly_run [] w = True"
| "orderly_run (e # es) w = (orderly e w \<and> orderly_run es (step e w))"

text \<open>What every turn keeps: there is a \<^verbatim>\<open>PendingRequest\<close> exactly when the state is not
  \<^verbatim>\<open>unmounted\<close>, and the last render saw it.\<close>

definition consistent :: "'v world \<Rightarrow> bool" where
  "consistent w =
     ((pending w = None) = (visualState w = VUnmounted) \<and>
      renderedIsOpen w = (pending w \<noteq> None))"

section \<open>Facts about the promise store\<close>

lemmas prims = emit_def setPending_def setIsMounted_def setVisualState_def
  queueMicrotask_def preventDefault_def focus_def focusElement_def callResolvePromise_def

lemma fulfil_length [simp]: "length (fulfil pid v ps) = length ps"
  by (simp add: fulfil_def)

lemma fulfil_settled: "\<not> (pid < length ps \<and> ps ! pid = Unsettled) \<Longrightarrow> fulfil pid v ps = ps"
  by (auto simp: fulfil_def)

lemma fulfil_unsettled:
  "pid < length ps \<Longrightarrow> ps ! pid = Unsettled \<Longrightarrow> fulfil pid v ps ! pid = Fulfilled v"
  by (simp add: fulfil_def)

lemma fulfil_twice [simp]: "fulfil pid v' (fulfil pid v ps) = fulfil pid v ps"
  by (simp add: fulfil_def)

lemma fulfil_keeps:
  "q < length ps \<Longrightarrow> ps ! q = Fulfilled x \<Longrightarrow> fulfil pid v ps ! q = Fulfilled x"
  by (cases "q = pid") (simp_all add: fulfil_def)

lemma promises_unmountPath [simp]: "promises (unmountPath w) = promises w"
  by (simp add: unmountPath_def prims Let_def)

lemma promises_resolve:
  "promises (resolve p v w) =
     (case p of None \<Rightarrow> promises w | Some r \<Rightarrow> fulfil (resolvePromise r) v (promises w))"
  by (simp add: resolve_def prims Let_def split: option.splits)

lemma promises_cancel:
  "promises (cancel p w) =
     (case p of None \<Rightarrow> promises w | Some r \<Rightarrow> fulfil (resolvePromise r) Null (promises w))"
  by (simp add: cancel_def prims Let_def split: option.splits)

lemma resolve_Null_cancel: "resolve p Null w = cancel p w"
  by (simp add: resolve_def cancel_def)

lemma promises_commit [simp]: "promises (commit w) = promises w"
  by (simp add: commit_def prims Let_def)

lemma promises_runMicrotask [simp]: "promises (runMicrotask m w) = promises w"
  by (cases m) (simp add: prims Let_def split: option.splits)

lemma promises_fold_runMicrotask [simp]: "promises (fold runMicrotask ms w) = promises w"
  by (induction ms arbitrary: w) simp_all

lemma promises_drain [simp]: "promises (drain w) = promises w"
  by (simp add: drain_def)

lemma promises_step: "promises (step e w) = promises (dispatch e (w\<lparr>effects := []\<rparr>))"
  by (simp add: step_def)

lemma promises_handleKeydown:
  "promises (handleKeydown p key sh ds w) =
     (if key = ''Escape'' \<or> key = ''Esc'' then promises (cancel p w) else promises w)"
  by (simp add: handleKeydown_def promises_cancel prims Let_def split: option.splits)

lemma promises_handleOverlayAnimationEnd [simp]:
  "promises (handleOverlayAnimationEnd vs t c w) = promises w"
  by (simp add: handleOverlayAnimationEnd_def)

lemma promises_handleWheelCapture [simp]: "promises (handleWheelCapture t w) = promises w"
  by (simp add: handleWheelCapture_def prims)

lemma promises_handleTouchMoveCapture [simp]:
  "promises (handleTouchMoveCapture t w) = promises w"
  by (simp add: handleTouchMoveCapture_def prims)

lemma promises_openWithRender:
  "promises (snd (openWithRender rnd w)) =
     (case externalOpenRef w of None \<Rightarrow> promises w | Some f \<Rightarrow> promises w @ [Unsettled])"
  by (simp add: openWithRender_def open_modal_def prims Let_def split: option.splits open_fn.splits)

lemma dispatch_keeps_fulfilled:
  assumes "q < length (promises w)" and "promises w ! q = Fulfilled x"
  shows "q < length (promises (dispatch e w)) \<and> promises (dispatch e w) ! q = Fulfilled x"
proof (cases e)
  case (EvOpenWithRender rnd)
  with assms show ?thesis
    by (simp add: promises_openWithRender nth_append split: option.splits)
next
  case (EvResolve v)
  with assms show ?thesis
    by (simp add: promises_resolve fulfil_keeps split: option.splits)
next
  case EvCancel
  with assms show ?thesis
    by (simp add: promises_cancel fulfil_keeps split: option.splits)
next
  case (EvKeptResolve r v)
  with assms show ?thesis
    by (simp add: promises_resolve fulfil_keeps)
next
  case (EvKeptCancel r)
  with assms show ?thesis
    by (simp add: promises_cancel fulfil_keeps)
next
  case (EvKeydown key sh t ds)
  with assms show ?thesis
    by (simp add: promises_handleKeydown promises_cancel fulfil_keeps split: option.splits)
next
  case (EvClick t)
  with assms show ?thesis
    by (simp add: handleOverlayClick_def promises_cancel fulfil_keeps split: option.splits)
qed (use assms in simp_all)

lemma step_keeps_fulfilled:
  "q < length (promises w) \<Longrightarrow> promises w ! q = Fulfilled x \<Longrightarrow>
     q < length (promises (step e w)) \<and> promises (step e w) ! q = Fulfilled x"
  using dispatch_keeps_fulfilled [of q "w\<lparr>effects := []\<rparr>" x e]
  by (simp add: promises_step)

lemma run_keeps_fulfilled:
  "q < length (promises w) \<Longrightarrow> promises w ! q = Fulfilled x \<Longrightarrow>
     q < length (promises (run es w)) \<and> promises (run es w) ! q = Fulfilled x"
proof (induction es arbitrary: w)
  case Nil
  then show ?case by simp
next
  case (Cons e es)
  from step_keeps_fulfilled [OF Cons.prems]
  have "q < length (promises (step e w))" and "promises (step e w) ! q = Fulfilled x"
    by simp_all
  then show ?case using Cons.IH by simp
qed

section \<open>Calls without a provider, values passed through, settling again\<close>

text \<open>
  C6. A call of \<^verbatim>\<open>openWithRender\<close> made while no provider has registered its \<^verbatim>\<open>open\<close>
  returns a promise rejected with the error "ModalProvider is not mounted" and leaves
  every variable as it was. The function has no \<^verbatim>\<open>throw\<close>: the rejection is its return
  value.
\<close>

theorem C6_host_not_mounted:
  "externalOpenRef w = None \<Longrightarrow>
     openWithRender rnd w = (RejectedWith ''ModalProvider is not mounted'', w) \<and>
     dispatch (EvOpenWithRender rnd) w = w"
  by (simp add: openWithRender_def)

theorem C6_host_not_mounted_witness:
  "externalOpenRef (initial (Some (Outside 0)) :: nat world) = None \<and>
   openWithRender 3 (initial (Some (Outside 0)) :: nat world) =
     (RejectedWith ''ModalProvider is not mounted'', initial (Some (Outside 0))) \<and>
   dispatch (EvOpenWithRender 3) (initial (Some (Outside 0)) :: nat world) =
     initial (Some (Outside 0))"
  using C6_host_not_mounted [of "initial (Some (Outside 0)) :: nat world" 3]
  by (simp add: initial_def)

text \<open>
  C10. The host hands the value given to \<^verbatim>\<open>resolve\<close> to the promise as it is: a pending
  promise is fulfilled with exactly that value, whatever it is. \<^verbatim>\<open>resolve(null)\<close> is the
  same function of the state as \<^verbatim>\<open>cancel()\<close>, so the turn of one leaves the same state
  as the turn of the other, and the promises are the same as after an overlay click or
  an Escape key: who awaits the promise sees \<^verbatim>\<open>null\<close> in all four cases.
\<close>

theorem C10_resolve_forwards_value:
  "(resolvePromise r < length (promises w) \<and> promises w ! resolvePromise r = Unsettled \<longrightarrow>
      promises (resolve (Some r) v w) ! resolvePromise r = Fulfilled v) \<and>
   resolve p Null w = cancel p w \<and>
   step (EvResolve Null) w = step EvCancel w \<and>
   (isMounted w \<longrightarrow>
      promises (step (EvClick Overlay) w) = promises (step (EvResolve Null) w) \<and>
      promises (step (EvKeydown ''Escape'' sh Overlay ds) w) = promises (step (EvResolve Null) w) \<and>
      promises (step (EvKeydown ''Escape'' sh (Content n) ds) w) =
        promises (step (EvResolve Null) w))"
proof (intro conjI impI)
  assume "resolvePromise r < length (promises w) \<and> promises w ! resolvePromise r = Unsettled"
  then show "promises (resolve (Some r) v w) ! resolvePromise r = Fulfilled v"
    by (simp add: promises_resolve fulfil_unsettled)
next
  show "resolve p Null w = cancel p w" by (rule resolve_Null_cancel)
next
  show "step (EvResolve Null) w = step EvCancel w"
    by (simp add: step_def resolve_Null_cancel)
next
  assume "isMounted w"
  then show "promises (step (EvClick Overlay) w) = promises (step (EvResolve Null) w)"
    by (simp add: promises_step contains_def handleOverlayClick_def resolve_Null_cancel)
next
  assume "isMounted w"
  then show "promises (step (EvKeydown ''Escape'' sh Overlay ds) w) =
      promises (step (EvResolve Null) w)"
    by (simp add: promises_step contains_def promises_handleKeydown promises_cancel
        promises_resolve split: option.splits)
next
  assume "isMounted w"
  then show "promises (step (EvKeydown ''Escape'' sh (Content n) ds) w) =
      promises (step (EvResolve Null) w)"
    by (simp add: promises_step contains_def promises_handleKeydown promises_cancel
        promises_resolve split: option.splits)
qed

theorem C10_resolve_forwards_value_witness:
  "promises (resolve (Some \<lparr>render = 0, resolvePromise = 0\<rparr>) (Value (5::nat))
      (step (EvOpenWithRender 0) (mounted False (Some (Outside 0))))) ! 0 = Fulfilled (Value 5) \<and>
   promises (resolve (Some \<lparr>render = 0, resolvePromise = 0\<rparr>) Null
      (step (EvOpenWithRender 0) (mounted False (Some (Outside 0)) :: nat world))) ! 0 = Fulfilled Null \<and>
   promises (step (EvKeydown ''Escape'' False (Content 1) [])
      (step (EvOpenWithRender 0) (mounted False (Some (Outside 0)) :: nat world))) =
   promises (step (EvResolve Null)
      (step (EvOpenWithRender 0) (mounted False (Some (Outside 0)) :: nat world)))"
proof -
  let ?w = "step (EvOpenWithRender 0) (mounted False (Some (Outside 0))) :: nat world"
  let ?r = "\<lparr>render = 0, resolvePromise = 0\<rparr>"
  have p: "promises ?w = [Unsettled]"
    by (simp add: promises_step promises_openWithRender mounted_def mount_def
        setExternalOpen_def initial_def)
  have m: "isMounted ?w"
    by (simp add: step_def drain_def commit_def openWithRender_def open_modal_def prims
        mounted_def mount_def setExternalOpen_def initial_def Let_def)
  from C10_resolve_forwards_value [of ?r ?w "Value 5" None False "[]" 1] p
  have a: "promises (resolve (Some ?r) (Value 5) ?w) ! 0 = Fulfilled (Value 5)" by simp
  from C10_resolve_forwards_value [of ?r ?w Null None False "[]" 1] p
  have b: "promises (resolve (Some ?r) Null ?w) ! 0 = Fulfilled Null" by simp
  from C10_resolve_forwards_value [of ?r ?w Null None False "[]" 1] m
  have c: "promises (step (EvKeydown ''Escape'' False (Content 1) []) ?w) =
      promises (step (EvResolve Null) ?w)" by blast
  from a b c show ?thesis by blast
qed

lemmas mounted_defs = mounted_def mount_def setExternalOpen_def initial_def

lemmas turn_defs = step_def drain_def commit_def openWithRender_def open_modal_def
  resolve_def cancel_def unmountPath_def handleKeydown_def handleOverlayClick_def
  handleOverlayAnimationEnd_def contains_def fulfil_def Let_def

text \<open>
  C1, as the code has it. The only guard of \<^verbatim>\<open>resolve\<close> and \<^verbatim>\<open>cancel\<close> is the \<^verbatim>\<open>pending\<close>
  of the render that made them; a control that a content holds was made with a request
  \<open>r\<close>. Called when the promise of \<open>r\<close> is already settled, whatever the state is, it
  changes no promise; and a promise once fulfilled keeps its value through every later
  event, calls of kept controls among them. While the request is closing (settled, not
  yet cleared) and the reduced-motion preference is off, such a call changes nothing of
  the host's state either. The functions have no \<^verbatim>\<open>throw\<close>.
\<close>

theorem C1_settle_again:
  "(\<not> (resolvePromise r < length (promises w) \<and> promises w ! resolvePromise r = Unsettled) \<longrightarrow>
      promises (resolve (Some r) v w) = promises w \<and>
      promises (cancel (Some r) w) = promises w \<and>
      promises (step (EvKeptResolve r v) w) = promises w \<and>
      promises (step (EvKeptCancel r) w) = promises w \<and>
      (\<not> prefersReducedMotionRef w \<and> restoreFocusOnCloseRef w \<and> visualState w = VClosed \<longrightarrow>
         (resolve (Some r) v w)\<lparr>effects := effects w\<rparr> = w \<and>
         (cancel (Some r) w)\<lparr>effects := effects w\<rparr> = w)) \<and>
   (q < length (promises w) \<and> promises w ! q = Fulfilled x \<longrightarrow>
      q < length (promises (run es w)) \<and> promises (run es w) ! q = Fulfilled x)"
proof (intro conjI impI)
  assume s: "\<not> (resolvePromise r < length (promises w) \<and> promises w ! resolvePromise r = Unsettled)"
  have f: "\<And>u. fulfil (resolvePromise r) u (promises w) = promises w"
    using fulfil_settled [OF s] by simp
  show "promises (resolve (Some r) v w) = promises w"
    by (simp add: promises_resolve f)
  show "promises (cancel (Some r) w) = promises w"
    by (simp add: promises_cancel f)
  show "promises (step (EvKeptResolve r v) w) = promises w"
    by (simp add: promises_step promises_resolve f)
  show "promises (step (EvKeptCancel r) w) = promises w"
    by (simp add: promises_step promises_cancel f)
  assume c: "\<not> prefersReducedMotionRef w \<and> restoreFocusOnCloseRef w \<and> visualState w = VClosed"
  show "(resolve (Some r) v w)\<lparr>effects := effects w\<rparr> = w"
    using c f by (cases w) (simp add: resolve_def prims Let_def)
  show "(cancel (Some r) w)\<lparr>effects := effects w\<rparr> = w"
    using c f by (cases w) (simp add: cancel_def prims Let_def)
next
  assume "q < length (promises w) \<and> promises w ! q = Fulfilled x"
  then show "q < length (promises (run es w))" and "promises (run es w) ! q = Fulfilled x"
    using run_keeps_fulfilled [of q w x es] by simp_all
qed

theorem C1_settle_again_witness:
  "promises (resolve (Some \<lparr>render = 0, resolvePromise = 0\<rparr>) (Value 9)
      (run [EvOpenWithRender 0, EvResolve (Value 7)] (mounted False (Some (Outside 0)) :: nat world)))
     = [Fulfilled (Value 7)] \<and>
   (cancel (Some \<lparr>render = 0, resolvePromise = 0\<rparr>)
      (run [EvOpenWithRender 0, EvResolve (Value 7)] (mounted False (Some (Outside 0)) :: nat world)))
     \<lparr>effects := [CallResolvePromise 0 (Value 7), SetVisualState VClosed]\<rparr>
     = run [EvOpenWithRender 0, EvResolve (Value 7)] (mounted False (Some (Outside 0))) \<and>
   promises (run [EvCancel, EvAnimationEnd Overlay,
        EvKeptCancel \<lparr>render = 0, resolvePromise = 0\<rparr>,
        EvKeptResolve \<lparr>render = 0, resolvePromise = 0\<rparr> (Value 9)]
      (run [EvOpenWithRender 0, EvResolve (Value 7)] (mounted False (Some (Outside 0)) :: nat world))) ! 0
     = Fulfilled (Value 7)"
proof -
  let ?w = "run [EvOpenWithRender 0, EvResolve (Value 7)] (mounted False (Some (Outside 0))) :: nat world"
  let ?r = "\<lparr>render = 0, resolvePromise = 0\<rparr>"
  let ?es = "[EvCancel, EvAnimationEnd Overlay, EvKeptCancel ?r,
      EvKeptResolve ?r (Value 9)] :: nat event list"
  have w: "?w = \<lparr>externalOpenRef = Some ProviderOpen, pending = Some ?r, isMounted = True,
      visualState = VClosed, dialogRef = Some Dialog, scrollContentRef = Some ScrollContent,
      previousActiveElementRef = Some (Outside 0), restoreFocusOnCloseRef = True,
      prefersReducedMotionRef = False, renderedIsOpen = True,
      promises = [Fulfilled (Value 7)], activeElement = Some (Outside 0), microtasks = [],
      effects = [CallResolvePromise 0 (Value 7), SetVisualState VClosed]\<rparr>"
    by (simp add: turn_defs prims mounted_defs)
  have h1: "\<not> (resolvePromise ?r < length (promises ?w) \<and> promises ?w ! resolvePromise ?r = Unsettled)"
    unfolding w by simp
  have h2: "\<not> prefersReducedMotionRef ?w \<and> restoreFocusOnCloseRef ?w \<and> visualState ?w = VClosed"
    unfolding w by simp
  have h3: "0 < length (promises ?w) \<and> promises ?w ! 0 = Fulfilled (Value 7)"
    unfolding w by simp
  note t = C1_settle_again [of ?r ?w "Value 9" 0 "Value 7" ?es]
  from t h1 have a: "promises (resolve (Some ?r) (Value 9) ?w) = promises ?w" by blast
  from t h1 h2 have b: "(cancel (Some ?r) ?w)\<lparr>effects := effects ?w\<rparr> = ?w" by blast
  from t h3 have c: "promises (run ?es ?w) ! 0 = Fulfilled (Value 7)" by blast
  have e: "effects ?w = [CallResolvePromise 0 (Value 7), SetVisualState VClosed]"
    unfolding w by simp
  have p: "promises ?w = [Fulfilled (Value 7)]"
    unfolding w by simp
  from a b c show ?thesis unfolding e p by blast
qed

text \<open>
  C1, as the claim states it, fails. A request is resolved with reduced motion off, so
  it is settled and closing; the preference then turns on; a \<^verbatim>\<open>cancel()\<close> after that is
  an attempt on a settled request, and it is no no-op: it runs the unmount path, which
  unmounts the layer, clears the \<^verbatim>\<open>PendingRequest\<close> and restores the focus.
\<close>

theorem C1_counterexample:
  "promises (run [EvOpenWithRender 0, EvResolve (Value 7), EvMediaChange True]
      (mounted False (Some (Outside 0)) :: nat world)) = [Fulfilled (Value 7)] \<and>
   visualState (run [EvOpenWithRender 0, EvResolve (Value 7), EvMediaChange True]
      (mounted False (Some (Outside 0)) :: nat world)) = VClosed \<and>
   visualState (step EvCancel (run [EvOpenWithRender 0, EvResolve (Value 7), EvMediaChange True]
      (mounted False (Some (Outside 0)) :: nat world))) = VUnmounted \<and>
   effects (step EvCancel (run [EvOpenWithRender 0, EvResolve (Value 7), EvMediaChange True]
      (mounted False (Some (Outside 0)) :: nat world))) =
     [CallResolvePromise 0 Null, SetVisualState VClosed, SetIsMounted False,
      SetVisualState VUnmounted, SetPending None, QueueMicrotask, CallFocus (Outside 0)]"
  by (simp add: turn_defs prims mounted_defs)

section \<open>Facts about the handlers\<close>

lemma visual_sets_append [simp]: "visual_sets (xs @ ys) = visual_sets xs @ visual_sets ys"
  by (induction xs rule: visual_sets.induct) simp_all

lemma cancel_eq_resolve: "cancel p w = resolve p Null w"
  by (simp add: resolve_def cancel_def)

lemma contains_Overlay: "contains Overlay t \<Longrightarrow> t = Overlay \<or> contains Dialog t"
  by (cases t) (simp_all add: contains_def)

lemma resolve_fields:
  "visualState (resolve p v w) =
     (case p of None \<Rightarrow> visualState w
      | Some r \<Rightarrow> if prefersReducedMotionRef w then VUnmounted else VClosed)"
  "pending (resolve p v w) =
     (case p of None \<Rightarrow> pending w
      | Some r \<Rightarrow> if prefersReducedMotionRef w then None else pending w)"
  "isMounted (resolve p v w) =
     (case p of None \<Rightarrow> isMounted w
      | Some r \<Rightarrow> if prefersReducedMotionRef w then False else isMounted w)"
  "prefersReducedMotionRef (resolve p v w) = prefersReducedMotionRef w"
  "renderedIsOpen (resolve p v w) = renderedIsOpen w"
  "externalOpenRef (resolve p v w) = externalOpenRef w"
  "visual_sets (effects (resolve p v w)) =
     visual_sets (effects w) @
     (case p of None \<Rightarrow> []
      | Some r \<Rightarrow> if prefersReducedMotionRef w then [VClosed, VUnmounted] else [VClosed])"
  by (simp_all add: resolve_def unmountPath_def prims Let_def split: option.splits)

lemma handleKeydown_fields:
  "visualState (handleKeydown p key sh ds w) =
     (if key = ''Escape'' \<or> key = ''Esc'' then visualState (resolve p Null w) else visualState w)"
  "pending (handleKeydown p key sh ds w) =
     (if key = ''Escape'' \<or> key = ''Esc'' then pending (resolve p Null w) else pending w)"
  "isMounted (handleKeydown p key sh ds w) =
     (if key = ''Escape'' \<or> key = ''Esc'' then isMounted (resolve p Null w) else isMounted w)"
  "prefersReducedMotionRef (handleKeydown p key sh ds w) = prefersReducedMotionRef w"
  "renderedIsOpen (handleKeydown p key sh ds w) = renderedIsOpen w"
  "externalOpenRef (handleKeydown p key sh ds w) = externalOpenRef w"
  "visual_sets (effects (handleKeydown p key sh ds w)) =
     (if key = ''Escape'' \<or> key = ''Esc'' then visual_sets (effects (resolve p Null w))
      else visual_sets (effects w))"
  by (simp_all add: handleKeydown_def cancel_eq_resolve resolve_fields prims Let_def
      split: option.splits)

lemma handleOverlayAnimationEnd_fields:
  "visualState (handleOverlayAnimationEnd vs t c w) =
     (if t = c \<and> vs = VClosed then VUnmounted else visualState w)"
  "pending (handleOverlayAnimationEnd vs t c w) =
     (if t = c \<and> vs = VClosed then None else pending w)"
  "isMounted (handleOverlayAnimationEnd vs t c w) =
     (if t = c \<and> vs = VClosed then False else isMounted w)"
  "prefersReducedMotionRef (handleOverlayAnimationEnd vs t c w) = prefersReducedMotionRef w"
  "renderedIsOpen (handleOverlayAnimationEnd vs t c w) = renderedIsOpen w"
  "externalOpenRef (handleOverlayAnimationEnd vs t c w) = externalOpenRef w"
  "visual_sets (effects (handleOverlayAnimationEnd vs t c w)) =
     visual_sets (effects w) @ (if t = c \<and> vs = VClosed then [VUnmounted] else [])"
  by (simp_all add: handleOverlayAnimationEnd_def unmountPath_def prims Let_def)

lemma handleOverlayClick_fields:
  "visualState (handleOverlayClick p t c w) =
     (if t = c then visualState (resolve p Null w) else visualState w)"
  "pending (handleOverlayClick p t c w) =
     (if t = c then pending (resolve p Null w) else pending w)"
  "isMounted (handleOverlayClick p t c w) =
     (if t = c then isMounted (resolve p Null w) else isMounted w)"
  "prefersReducedMotionRef (handleOverlayClick p t c w) = prefersReducedMotionRef w"
  "renderedIsOpen (handleOverlayClick p t c w) = renderedIsOpen w"
  "externalOpenRef (handleOverlayClick p t c w) = externalOpenRef w"
  "visual_sets (effects (handleOverlayClick p t c w)) =
     (if t = c then visual_sets (effects (resolve p Null w)) else visual_sets (effects w))"
  by (simp_all add: handleOverlayClick_def cancel_eq_resolve resolve_fields)

lemma scroll_fields:
  "visualState (handleWheelCapture t w) = visualState w"
  "pending (handleWheelCapture t w) = pending w"
  "isMounted (handleWheelCapture t w) = isMounted w"
  "prefersReducedMotionRef (handleWheelCapture t w) = prefersReducedMotionRef w"
  "renderedIsOpen (handleWheelCapture t w) = renderedIsOpen w"
  "externalOpenRef (handleWheelCapture t w) = externalOpenRef w"
  "visual_sets (effects (handleWheelCapture t w)) = visual_sets (effects w)"
  "visualState (handleTouchMoveCapture t w) = visualState w"
  "pending (handleTouchMoveCapture t w) = pending w"
  "isMounted (handleTouchMoveCapture t w) = isMounted w"
  "prefersReducedMotionRef (handleTouchMoveCapture t w) = prefersReducedMotionRef w"
  "renderedIsOpen (handleTouchMoveCapture t w) = renderedIsOpen w"
  "externalOpenRef (handleTouchMoveCapture t w) = externalOpenRef w"
  "visual_sets (effects (handleTouchMoveCapture t w)) = visual_sets (effects w)"
  by (simp_all add: handleWheelCapture_def handleTouchMoveCapture_def prims)

lemma openWithRender_fields:
  "visualState (snd (openWithRender rnd w)) =
     (case externalOpenRef w of None \<Rightarrow> visualState w | Some f \<Rightarrow> VOpen)"
  "pending (snd (openWithRender rnd w)) =
     (case externalOpenRef w of None \<Rightarrow> pending w
      | Some f \<Rightarrow> Some \<lparr>render = rnd, resolvePromise = length (promises w)\<rparr>)"
  "isMounted (snd (openWithRender rnd w)) =
     (case externalOpenRef w of None \<Rightarrow> isMounted w | Some f \<Rightarrow> True)"
  "prefersReducedMotionRef (snd (openWithRender rnd w)) = prefersReducedMotionRef w"
  "renderedIsOpen (snd (openWithRender rnd w)) = renderedIsOpen w"
  "externalOpenRef (snd (openWithRender rnd w)) = externalOpenRef w"
  "visual_sets (effects (snd (openWithRender rnd w))) =
     visual_sets (effects w) @ (case externalOpenRef w of None \<Rightarrow> [] | Some f \<Rightarrow> [VOpen])"
  by (simp_all add: openWithRender_def open_modal_def prims Let_def
      split: option.splits open_fn.splits)

lemma commit_fields:
  "visualState (commit w) =
     (if pending w \<noteq> None \<and> \<not> renderedIsOpen w then VOpen else visualState w)"
  "pending (commit w) = pending w"
  "isMounted (commit w) = (if pending w \<noteq> None \<and> \<not> renderedIsOpen w then True else isMounted w)"
  "prefersReducedMotionRef (commit w) = prefersReducedMotionRef w"
  "renderedIsOpen (commit w) = (pending w \<noteq> None)"
  "externalOpenRef (commit w) = externalOpenRef w"
  "visual_sets (effects (commit w)) =
     visual_sets (effects w) @ (if pending w \<noteq> None \<and> \<not> renderedIsOpen w then [VOpen] else [])"
  by (auto simp: commit_def prims Let_def)

lemma runMicrotask_fields:
  "visualState (runMicrotask m w) = visualState w"
  "pending (runMicrotask m w) = pending w"
  "isMounted (runMicrotask m w) = isMounted w"
  "prefersReducedMotionRef (runMicrotask m w) = prefersReducedMotionRef w"
  "renderedIsOpen (runMicrotask m w) = renderedIsOpen w"
  "externalOpenRef (runMicrotask m w) = externalOpenRef w"
  "visual_sets (effects (runMicrotask m w)) = visual_sets (effects w)"
  by (cases m; simp add: prims split: option.splits)+

lemma fold_runMicrotask_fields:
  "visualState (fold runMicrotask ms w) = visualState w \<and>
   pending (fold runMicrotask ms w) = pending w \<and>
   isMounted (fold runMicrotask ms w) = isMounted w \<and>
   prefersReducedMotionRef (fold runMicrotask ms w) = prefersReducedMotionRef w \<and>
   renderedIsOpen (fold runMicrotask ms w) = renderedIsOpen w \<and>
   externalOpenRef (fold runMicrotask ms w) = externalOpenRef w \<and>
   visual_sets (effects (fold runMicrotask ms w)) = visual_sets (effects w)"
  by (induction ms arbitrary: w) (simp_all add: runMicrotask_fields)

lemma drain_fields:
  "visualState (drain w) = visualState w"
  "pending (drain w) = pending w"
  "isMounted (drain w) = isMounted w"
  "prefersReducedMotionRef (drain w) = prefersReducedMotionRef w"
  "renderedIsOpen (drain w) = renderedIsOpen w"
  "externalOpenRef (drain w) = externalOpenRef w"
  "visual_sets (effects (drain w)) = visual_sets (effects w)"
  by (simp_all add: drain_def fold_runMicrotask_fields)

lemmas handler_fields = resolve_fields handleKeydown_fields handleOverlayAnimationEnd_fields
  handleOverlayClick_fields scroll_fields openWithRender_fields commit_fields drain_fields

text \<open>
  C2. While a request is open (its promise unsettled, the layer rendered), each of the
  three ways to dismiss it fulfils the promise with \<^verbatim>\<open>null\<close>: a call of \<^verbatim>\<open>cancel()\<close>, an
  Escape key going down anywhere in the layer, a click whose target is the overlay
  itself. A click inside the content \<^verbatim>\<open>div\<close> does nothing, and \<^verbatim>\<open>handleOverlayClick\<close>
  ignores a target other than the element it is attached to. The key handler and the
  click handler do nothing but call \<^verbatim>\<open>cancel\<close>. The promise of the request is the one
  \<^verbatim>\<open>openWithRender\<close> returned: a new, unsettled one.
\<close>

theorem C2_cancellation_resolves_null:
  "(pending w = Some r \<and> resolvePromise r < length (promises w) \<and>
    promises w ! resolvePromise r = Unsettled \<and> isMounted w \<longrightarrow>
      promises (step EvCancel w) ! resolvePromise r = Fulfilled Null \<and>
      promises (step (EvClick Overlay) w) ! resolvePromise r = Fulfilled Null \<and>
      (contains Overlay t \<and> (key = ''Escape'' \<or> key = ''Esc'') \<longrightarrow>
         promises (step (EvKeydown key sh t ds) w) ! resolvePromise r = Fulfilled Null)) \<and>
   (contains Dialog t \<longrightarrow> dispatch (EvClick t) w = w) \<and>
   (t \<noteq> c \<longrightarrow> handleOverlayClick p t c w = w) \<and>
   handleOverlayClick p c c w = cancel p w \<and>
   handleKeydown p ''Escape'' sh ds w = cancel p (preventDefault w) \<and>
   handleKeydown p ''Esc'' sh ds w = cancel p (preventDefault w) \<and>
   (externalOpenRef w = Some ProviderOpen \<longrightarrow>
      fst (openWithRender rnd w) = PromiseRef (length (promises w)) \<and>
      pending (snd (openWithRender rnd w)) =
        Some \<lparr>render = rnd, resolvePromise = length (promises w)\<rparr> \<and>
      promises (snd (openWithRender rnd w)) = promises w @ [Unsettled])"
proof (intro conjI impI)
  assume a: "pending w = Some r \<and> resolvePromise r < length (promises w) \<and>
    promises w ! resolvePromise r = Unsettled \<and> isMounted w"
  then have f: "fulfil (resolvePromise r) Null (promises w) ! resolvePromise r = Fulfilled Null"
    by (simp add: fulfil_unsettled)
  from a f show "promises (step EvCancel w) ! resolvePromise r = Fulfilled Null"
    by (simp add: promises_step promises_cancel)
  from a f show "promises (step (EvClick Overlay) w) ! resolvePromise r = Fulfilled Null"
    by (simp add: promises_step promises_cancel handleOverlayClick_def contains_def)
  assume k: "contains Overlay t \<and> (key = ''Escape'' \<or> key = ''Esc'')"
  then have "t = Overlay \<or> contains Dialog t"
    using contains_Overlay by blast
  with a f k show "promises (step (EvKeydown key sh t ds) w) ! resolvePromise r = Fulfilled Null"
    by (auto simp: promises_step promises_cancel promises_handleKeydown)
next
  assume "contains Dialog t"
  then show "dispatch (EvClick t) w = w" by simp
next
  assume "t \<noteq> c"
  then show "handleOverlayClick p t c w = w" by (simp add: handleOverlayClick_def)
next
  show "handleOverlayClick p c c w = cancel p w" by (simp add: handleOverlayClick_def)
  show "handleKeydown p ''Escape'' sh ds w = cancel p (preventDefault w)"
    by (simp add: handleKeydown_def)
  show "handleKeydown p ''Esc'' sh ds w = cancel p (preventDefault w)"
    by (simp add: handleKeydown_def)
next
  assume "externalOpenRef w = Some ProviderOpen"
  then show "fst (openWithRender rnd w) = PromiseRef (length (promises w))"
    and "pending (snd (openWithRender rnd w)) =
      Some \<lparr>render = rnd, resolvePromise = length (promises w)\<rparr>"
    and "promises (snd (openWithRender rnd w)) = promises w @ [Unsettled]"
    by (simp_all add: openWithRender_def open_modal_def prims Let_def)
qed

theorem C2_cancellation_resolves_null_witness:
  "promises (step EvCancel
      (step (EvOpenWithRender 0) (mounted False (Some (Outside 0)) :: nat world))) ! 0 = Fulfilled Null \<and>
   promises (step (EvClick Overlay)
      (step (EvOpenWithRender 0) (mounted False (Some (Outside 0)) :: nat world))) ! 0 = Fulfilled Null \<and>
   promises (step (EvKeydown ''Escape'' False (Content 1) [])
      (step (EvOpenWithRender 0) (mounted False (Some (Outside 0)) :: nat world))) ! 0 = Fulfilled Null \<and>
   dispatch (EvClick (Content 1))
      (step (EvOpenWithRender 0) (mounted False (Some (Outside 0)) :: nat world)) =
     step (EvOpenWithRender 0) (mounted False (Some (Outside 0))) \<and>
   handleOverlayClick None (Content 1) Overlay (mounted False None :: nat world) = mounted False None"
proof -
  let ?w = "step (EvOpenWithRender 0) (mounted False (Some (Outside 0))) :: nat world"
  let ?r = "\<lparr>render = 0, resolvePromise = 0\<rparr>"
  have h: "pending ?w = Some ?r \<and> resolvePromise ?r < length (promises ?w) \<and>
      promises ?w ! resolvePromise ?r = Unsettled \<and> isMounted ?w"
    by (simp add: turn_defs prims mounted_defs)
  have k: "contains Overlay (Content 1) \<and> (''Escape'' = ''Escape'' \<or> ''Escape'' = ''Esc'')"
    by (simp add: contains_def)
  have d: "contains Dialog (Content 1)"
    by (simp add: contains_def)
  note t = C2_cancellation_resolves_null
    [of ?w ?r "Content 1" "''Escape''" False "[]" Overlay None]
  from t h have a: "promises (step EvCancel ?w) ! 0 = Fulfilled Null" by simp
  from t h have b: "promises (step (EvClick Overlay) ?w) ! 0 = Fulfilled Null" by simp
  from t h k have c: "promises (step (EvKeydown ''Escape'' False (Content 1) []) ?w) ! 0 =
      Fulfilled Null" by simp
  from t d have e: "dispatch (EvClick (Content 1)) ?w = ?w" by blast
  have "handleOverlayClick None (Content 1) Overlay (mounted False None :: nat world) =
      mounted False None"
    using C2_cancellation_resolves_null
      [of "mounted False None :: nat world" ?r "Content 1" "''Escape''" False "[]" Overlay None]
    by simp
  with a b c e show ?thesis by blast
qed

lemma step_fields:
  "visualState (step e w) = visualState (commit (dispatch e (w\<lparr>effects := []\<rparr>)))"
  "pending (step e w) = pending (dispatch e (w\<lparr>effects := []\<rparr>))"
  "prefersReducedMotionRef (step e w) = prefersReducedMotionRef (dispatch e (w\<lparr>effects := []\<rparr>))"
  "renderedIsOpen (step e w) = (pending (dispatch e (w\<lparr>effects := []\<rparr>)) \<noteq> None)"
  "externalOpenRef (step e w) = externalOpenRef (dispatch e (w\<lparr>effects := []\<rparr>))"
  "visual_sets (effects (step e w)) = visual_sets (effects (commit (dispatch e (w\<lparr>effects := []\<rparr>))))"
  by (simp_all add: step_def drain_fields commit_fields)

text \<open>
  C4, as the code has it. No handler keeps the preference of the settlement: each
  reads it when it runs. A \<^verbatim>\<open>resolve\<close> or \<^verbatim>\<open>cancel\<close> that finds
  it true unmounts on the spot: when the handler returns, \<^verbatim>\<open>visualState\<close> has been set
  to unmounted, the layer is no longer mounted and the \<^verbatim>\<open>PendingRequest\<close> is cleared,
  with no end of animation awaited. One that finds it false sets closed and
  leaves the request and the layer in place. In a turn that starts with the preference
  false, whatever the event, the unmount path runs only if the event is an end of
  animation whose target is the overlay and \<^verbatim>\<open>visualState\<close> is closed; such an event
  does run it, and an end of animation of another node never does.
\<close>

theorem C4_reduced_motion:
  "(prefersReducedMotionRef w \<longrightarrow>
      visualState (resolve (Some r) v w) = VUnmounted \<and>
      pending (resolve (Some r) v w) = None \<and>
      \<not> isMounted (resolve (Some r) v w) \<and>
      visualState (cancel (Some r) w) = VUnmounted \<and>
      pending (cancel (Some r) w) = None \<and>
      \<not> isMounted (cancel (Some r) w) \<and>
      (pending w = Some r \<longrightarrow>
         unmountPathRan (step (EvResolve v) w) \<and> unmountPathRan (step EvCancel w))) \<and>
   (\<not> prefersReducedMotionRef w \<longrightarrow>
      visualState (resolve (Some r) v w) = VClosed \<and>
      pending (resolve (Some r) v w) = pending w \<and>
      isMounted (resolve (Some r) v w) = isMounted w \<and>
      visualState (cancel (Some r) w) = VClosed \<and>
      pending (cancel (Some r) w) = pending w \<and>
      isMounted (cancel (Some r) w) = isMounted w \<and>
      (unmountPathRan (step e w) \<longrightarrow>
         e = EvAnimationEnd Overlay \<and> visualState w = VClosed \<and> isMounted w)) \<and>
   (isMounted w \<and> visualState w = VClosed \<longrightarrow>
      unmountPathRan (step (EvAnimationEnd Overlay) w) \<and>
      visualState (step (EvAnimationEnd Overlay) w) = VUnmounted \<and>
      pending (step (EvAnimationEnd Overlay) w) = None) \<and>
   (t \<noteq> Overlay \<longrightarrow> \<not> unmountPathRan (step (EvAnimationEnd t) w))"
proof (intro conjI impI)
  assume m: "prefersReducedMotionRef w"
  then show "visualState (resolve (Some r) v w) = VUnmounted"
    and "pending (resolve (Some r) v w) = None"
    and "\<not> isMounted (resolve (Some r) v w)"
    and "visualState (cancel (Some r) w) = VUnmounted"
    and "pending (cancel (Some r) w) = None"
    and "\<not> isMounted (cancel (Some r) w)"
    by (simp_all add: cancel_eq_resolve resolve_fields)
  assume "pending w = Some r"
  with m show "unmountPathRan (step (EvResolve v) w)" and "unmountPathRan (step EvCancel w)"
    by (simp_all add: unmountPathRan_def step_fields commit_fields cancel_eq_resolve resolve_fields)
next
  assume m: "\<not> prefersReducedMotionRef w"
  then show "visualState (resolve (Some r) v w) = VClosed"
    and "pending (resolve (Some r) v w) = pending w"
    and "isMounted (resolve (Some r) v w) = isMounted w"
    and "visualState (cancel (Some r) w) = VClosed"
    and "pending (cancel (Some r) w) = pending w"
    and "isMounted (cancel (Some r) w) = isMounted w"
    by (simp_all add: cancel_eq_resolve resolve_fields)
  assume u: "unmountPathRan (step e w)"
  show "e = EvAnimationEnd Overlay" and "visualState w = VClosed" and "isMounted w"
    using m u
    by (cases e;
        simp add: unmountPathRan_def step_fields handler_fields cancel_eq_resolve
          split: option.splits if_splits)+
next
  assume "isMounted w \<and> visualState w = VClosed"
  then show "unmountPathRan (step (EvAnimationEnd Overlay) w)"
    and "visualState (step (EvAnimationEnd Overlay) w) = VUnmounted"
    and "pending (step (EvAnimationEnd Overlay) w) = None"
    by (simp_all add: unmountPathRan_def step_fields handler_fields contains_def)
next
  assume "t \<noteq> Overlay"
  then show "\<not> unmountPathRan (step (EvAnimationEnd t) w)"
    by (simp add: unmountPathRan_def step_fields handler_fields)
qed

theorem C4_reduced_motion_witness:
  "visualState (resolve (Some \<lparr>render = 0, resolvePromise = 0\<rparr>) (Value 7)
      (step (EvOpenWithRender 0) (mounted True (Some (Outside 0)) :: nat world))) = VUnmounted \<and>
   unmountPathRan (step EvCancel
      (step (EvOpenWithRender 0) (mounted True (Some (Outside 0)) :: nat world))) \<and>
   visualState (cancel (Some \<lparr>render = 0, resolvePromise = 0\<rparr>)
      (run [EvOpenWithRender 0, EvResolve (Value 7)]
         (mounted False (Some (Outside 0)) :: nat world))) = VClosed \<and>
   visualState (run [EvOpenWithRender 0, EvResolve (Value 7)]
      (mounted False (Some (Outside 0)) :: nat world)) = VClosed \<and>
   pending (step (EvAnimationEnd Overlay) (run [EvOpenWithRender 0, EvResolve (Value 7)]
      (mounted False (Some (Outside 0)) :: nat world))) = None \<and>
   \<not> unmountPathRan (step (EvAnimationEnd (Content 1))
      (run [EvOpenWithRender 0, EvResolve (Value 7)]
         (mounted False (Some (Outside 0)) :: nat world)))"
proof -
  let ?a = "step (EvOpenWithRender 0) (mounted True (Some (Outside 0))) :: nat world"
  let ?b = "run [EvOpenWithRender 0, EvResolve (Value 7)]
      (mounted False (Some (Outside 0))) :: nat world"
  let ?r = "\<lparr>render = 0, resolvePromise = 0\<rparr>"
  have ha: "prefersReducedMotionRef ?a" "pending ?a = Some ?r"
    by (simp_all add: turn_defs prims mounted_defs)
  have hb: "\<not> prefersReducedMotionRef ?b" "isMounted ?b \<and> visualState ?b = VClosed"
    by (simp_all add: turn_defs prims mounted_defs)
  have ht: "Content 1 \<noteq> Overlay" by simp
  note ta = C4_reduced_motion [of ?a ?r "Value 7" EvCancel Overlay]
  note tb = C4_reduced_motion [of ?b ?r "Value 7" "EvAnimationEnd Overlay" "Content 1"]
  from ta ha have a1: "visualState (resolve (Some ?r) (Value 7) ?a) = VUnmounted"
    and a2: "unmountPathRan (step EvCancel ?a)" by blast+
  from tb hb have b1: "visualState (cancel (Some ?r) ?b) = VClosed"
    and b2: "unmountPathRan (step (EvAnimationEnd Overlay) ?b)"
    and b3: "pending (step (EvAnimationEnd Overlay) ?b) = None" by blast+
  from tb hb(1) b2 have b4: "visualState ?b = VClosed" by blast
  from tb ht have b5: "\<not> unmountPathRan (step (EvAnimationEnd (Content 1)) ?b)" by blast
  from a1 a2 b1 b4 b3 b5 show ?thesis by blast
qed

text \<open>
  C4, as the claim states it, fails. A request is cancelled with the preference off:
  at settlement time it is false, and the request is closing. The preference then
  turns on, and a click on the overlay, which is no end of animation, runs the unmount
  path.
\<close>

theorem C4_counterexample:
  "\<not> prefersReducedMotionRef (step (EvOpenWithRender 0)
      (mounted False (Some (Outside 0)) :: nat world)) \<and>
   visualState (run [EvOpenWithRender 0, EvCancel, EvMediaChange True]
      (mounted False (Some (Outside 0)) :: nat world)) = VClosed \<and>
   pending (run [EvOpenWithRender 0, EvCancel, EvMediaChange True]
      (mounted False (Some (Outside 0)) :: nat world)) = Some \<lparr>render = 0, resolvePromise = 0\<rparr> \<and>
   unmountPathRan (step (EvClick Overlay) (run [EvOpenWithRender 0, EvCancel, EvMediaChange True]
      (mounted False (Some (Outside 0)) :: nat world))) \<and>
   visualState (step (EvClick Overlay) (run [EvOpenWithRender 0, EvCancel, EvMediaChange True]
      (mounted False (Some (Outside 0)) :: nat world))) = VUnmounted \<and>
   pending (step (EvClick Overlay) (run [EvOpenWithRender 0, EvCancel, EvMediaChange True]
      (mounted False (Some (Outside 0)) :: nat world))) = None"
  by (simp add: unmountPathRan_def turn_defs prims mounted_defs)

section \<open>Facts about turns\<close>

lemma consistent_mounted: "consistent (mounted m f)"
  by (simp add: consistent_def mounted_defs)

lemma follows_path_append:
  "follows_path a (xs @ ys) = (follows_path a xs \<and> follows_path (last (a # xs)) ys)"
  by (induction xs arbitrary: a) auto

lemma last_append_last: "last (a # xs @ ys) = last (last (a # xs) # ys)"
  by (induction xs arbitrary: a) auto

lemma turn_follows_path:
  assumes "consistent w" and "orderly e w"
  shows "follows_path (visualState w) (visual_sets (effects (step e w))) \<and>
     visualState (step e w) = last (visualState w # visual_sets (effects (step e w))) \<and>
     consistent (step e w)"
proof (cases e)
  case (EvOpenWithRender rnd)
  with assms show ?thesis
    by (auto simp: on_path_def consistent_def step_fields handler_fields split: option.splits)
next
  case (EvResolve v)
  with assms show ?thesis
    by (cases "visualState w")
      (auto simp: on_path_def consistent_def step_fields handler_fields split: option.splits)
next
  case EvCancel
  with assms show ?thesis
    by (cases "visualState w")
      (auto simp: on_path_def consistent_def step_fields handler_fields cancel_eq_resolve
        split: option.splits)
next
  case (EvKeptResolve r v)
  with assms show ?thesis
    by (cases "visualState w")
      (auto simp: on_path_def consistent_def step_fields handler_fields)
next
  case (EvKeptCancel r)
  with assms show ?thesis
    by (cases "visualState w")
      (auto simp: on_path_def consistent_def step_fields handler_fields cancel_eq_resolve)
next
  case (EvKeydown key sh t ds)
  with assms show ?thesis
    by (cases "visualState w")
      (auto simp: on_path_def consistent_def step_fields handler_fields split: option.splits)
next
  case (EvClick t)
  with assms show ?thesis
    by (cases "visualState w")
      (auto simp: on_path_def consistent_def step_fields handler_fields split: option.splits)
next
  case (EvAnimationEnd t)
  with assms show ?thesis
    by (cases "visualState w")
      (auto simp: on_path_def consistent_def step_fields handler_fields split: option.splits)
next
  case (EvWheel t)
  with assms show ?thesis
    by (auto simp: consistent_def step_fields handler_fields)
next
  case (EvTouchMove t)
  with assms show ?thesis
    by (auto simp: consistent_def step_fields handler_fields)
next
  case (EvMediaChange m)
  with assms show ?thesis
    by (auto simp: consistent_def step_fields handler_fields)
qed

lemma run_follows_path:
  "consistent w \<Longrightarrow> orderly_run es w \<Longrightarrow>
     follows_path (visualState w) (visual_trace es w) \<and>
     visualState (run es w) = last (visualState w # visual_trace es w) \<and>
     consistent (run es w)"
proof (induction es arbitrary: w)
  case Nil
  then show ?case by simp
next
  case (Cons e es)
  from Cons.prems have t: "follows_path (visualState w) (visual_sets (effects (step e w)))"
    and l: "visualState (step e w) = last (visualState w # visual_sets (effects (step e w)))"
    and c: "consistent (step e w)"
    using turn_follows_path [of w e] by simp_all
  from Cons.prems have "orderly_run es (step e w)" by simp
  from Cons.IH [OF c this]
  have i: "follows_path (visualState (step e w)) (visual_trace es (step e w))"
    and j: "visualState (run es (step e w)) =
      last (visualState (step e w) # visual_trace es (step e w))"
    and k: "consistent (run es (step e w))"
    by simp_all
  have "follows_path (visualState w) (visual_trace (e # es) w)"
    using t i l by (simp add: follows_path_append)
  moreover have "visualState (run (e # es) w) = last (visualState w # visual_trace (e # es) w)"
    using j l last_append_last [of "visualState w" "visual_sets (effects (step e w))"
        "visual_trace es (step e w)"]
    by simp
  ultimately show ?case using k by simp
qed

text \<open>
  C7, as the code has it. Take a provider in a state where a \<^verbatim>\<open>PendingRequest\<close> exists
  exactly when \<^verbatim>\<open>visualState\<close> is not unmounted (a provider just mounted is in one),
  and a run in which \<^verbatim>\<open>openWithRender\<close> is called only while there is no
  \<^verbatim>\<open>PendingRequest\<close>. Calls of a control whose request is no longer the
  \<^verbatim>\<open>PendingRequest\<close>, and an Escape that goes down inside the content \<^verbatim>\<open>div\<close> under
  reduced motion, are left aside. Then the values given to \<^verbatim>\<open>setVisualState\<close>, in the
  order of the calls through the whole run, go along unmounted, open, closed,
  unmounted, a value at most being set again; \<^verbatim>\<open>visualState\<close> is the last of them; so
  open never gives way to unmounted without closed in between. Every pass through
  \<^verbatim>\<open>resolve\<close> or \<^verbatim>\<open>cancel\<close> sets closed first and, under reduced motion, unmounted
  after it.
\<close>

theorem C7_visual_path:
  "consistent (mounted m f) \<and>
   (consistent w \<and> orderly_run es w \<longrightarrow>
      follows_path (visualState w) (visual_trace es w) \<and>
      visualState (run es w) = last (visualState w # visual_trace es w) \<and>
      consistent (run es w)) \<and>
   visual_sets (effects (resolve (Some r) v w)) =
     visual_sets (effects w) @
       (if prefersReducedMotionRef w then [VClosed, VUnmounted] else [VClosed]) \<and>
   visual_sets (effects (cancel (Some r) w)) =
     visual_sets (effects w) @
       (if prefersReducedMotionRef w then [VClosed, VUnmounted] else [VClosed])"
  using run_follows_path [of w es]
  by (simp add: consistent_mounted cancel_eq_resolve resolve_fields)

theorem C7_visual_path_witness:
  "orderly_run
     [EvOpenWithRender 0, EvCancel, EvOpenWithRender 1, EvKeydown ''Escape'' False Overlay []]
     (mounted True (Some (Outside 0)) :: nat world) \<and>
   follows_path VUnmounted (visual_trace
     [EvOpenWithRender 0, EvCancel, EvOpenWithRender 1, EvKeydown ''Escape'' False Overlay []]
     (mounted True (Some (Outside 0)) :: nat world)) \<and>
   orderly_run
     [EvOpenWithRender 0, EvKeydown ''Escape'' False (Content 1) [],
      EvKeptCancel \<lparr>render = 0, resolvePromise = 0\<rparr>, EvAnimationEnd Overlay]
     (mounted False (Some (Outside 0)) :: nat world) \<and>
   follows_path VUnmounted (visual_trace
     [EvOpenWithRender 0, EvKeydown ''Escape'' False (Content 1) [],
      EvKeptCancel \<lparr>render = 0, resolvePromise = 0\<rparr>, EvAnimationEnd Overlay]
     (mounted False (Some (Outside 0)) :: nat world)) \<and>
   visualState (run
     [EvOpenWithRender 0, EvKeydown ''Escape'' False (Content 1) [],
      EvKeptCancel \<lparr>render = 0, resolvePromise = 0\<rparr>, EvAnimationEnd Overlay]
     (mounted False (Some (Outside 0)) :: nat world)) =
   last (VUnmounted # visual_trace
     [EvOpenWithRender 0, EvKeydown ''Escape'' False (Content 1) [],
      EvKeptCancel \<lparr>render = 0, resolvePromise = 0\<rparr>, EvAnimationEnd Overlay]
     (mounted False (Some (Outside 0)) :: nat world))"
proof -
  let ?a = "mounted True (Some (Outside 0)) :: nat world"
  let ?b = "mounted False (Some (Outside 0)) :: nat world"
  let ?es = "[EvOpenWithRender 0, EvCancel, EvOpenWithRender 1,
      EvKeydown ''Escape'' False Overlay []] :: nat event list"
  let ?fs = "[EvOpenWithRender 0, EvKeydown ''Escape'' False (Content 1) [],
      EvKeptCancel \<lparr>render = 0, resolvePromise = 0\<rparr>, EvAnimationEnd Overlay] :: nat event list"
  have sa: "orderly_run ?es ?a"
    by (simp add: turn_defs prims mounted_defs)
  have sb: "orderly_run ?fs ?b"
    by (simp add: turn_defs prims mounted_defs)
  have va: "visualState ?a = VUnmounted" and vb: "visualState ?b = VUnmounted"
    by (simp_all add: mounted_defs)
  have ca: "consistent ?a"
    using C7_visual_path [of True "Some (Outside 0)" ?a ?es] by blast
  have cb: "consistent ?b"
    using C7_visual_path [of False "Some (Outside 0)" ?b ?fs] by blast
  from C7_visual_path [of True "Some (Outside 0)" ?a ?es] ca sa
  have ta: "follows_path (visualState ?a) (visual_trace ?es ?a)" by blast
  from C7_visual_path [of False "Some (Outside 0)" ?b ?fs] cb sb
  have tb: "follows_path (visualState ?b) (visual_trace ?fs ?b)"
    and lb: "visualState (run ?fs ?b) = last (visualState ?b # visual_trace ?fs ?b)" by blast+
  from sa ta sb tb lb show ?thesis unfolding va vb by blast
qed

text \<open>
  C7, as the claim states it, fails. A request is opened and resolved with reduced
  motion off; its future is fulfilled and it is closing. A second request is opened
  before the end of the animation: never are two futures unsettled, and \<^verbatim>\<open>visualState\<close>
  goes from closed to open.
\<close>

theorem C7_counterexample:
  "promises (run [EvOpenWithRender 0, EvResolve (Value 7)]
      (mounted False (Some (Outside 0)) :: nat world)) = [Fulfilled (Value 7)] \<and>
   visualState (run [EvOpenWithRender 0, EvResolve (Value 7)]
      (mounted False (Some (Outside 0)) :: nat world)) = VClosed \<and>
   promises (run [EvOpenWithRender 0, EvResolve (Value 7), EvOpenWithRender 1]
      (mounted False (Some (Outside 0)) :: nat world)) = [Fulfilled (Value 7), Unsettled] \<and>
   visualState (run [EvOpenWithRender 0, EvResolve (Value 7), EvOpenWithRender 1]
      (mounted False (Some (Outside 0)) :: nat world)) = VOpen \<and>
   visual_sets (effects (run [EvOpenWithRender 0, EvResolve (Value 7), EvOpenWithRender 1]
      (mounted False (Some (Outside 0)) :: nat world))) = [VOpen]"
  by (simp add: turn_defs prims mounted_defs)

section \<open>Facts about the focus trap\<close>

lemma tabbables_filter:
  "tabbables ds =
     filter (\<lambda>el. matches_selector el \<and> \<not> has_aria_hidden el \<and> tabIndex el \<noteq> -1 \<and> \<not> hidden el) ds"
  by (simp add: tabbables_def)

lemma handleKeydown_Tab_empty:
  "dialogRef w = Some c \<Longrightarrow> tabbables ds = [] \<Longrightarrow>
     handleKeydown p ''Tab'' sh ds w = preventDefault w"
  by (simp add: handleKeydown_def)

lemma handleKeydown_Tab_forward:
  "dialogRef w = Some c \<Longrightarrow> tabbables ds \<noteq> [] \<Longrightarrow>
   activeElement w = Some (el_node (last (tabbables ds))) \<Longrightarrow>
     handleKeydown p ''Tab'' False ds w = focusElement (hd (tabbables ds)) (preventDefault w)"
  by (simp add: handleKeydown_def Let_def)

lemma handleKeydown_Tab_backward:
  "dialogRef w = Some c \<Longrightarrow> tabbables ds \<noteq> [] \<Longrightarrow>
   activeElement w = Some (el_node (hd (tabbables ds))) \<or> activeElement w = Some c \<Longrightarrow>
     handleKeydown p ''Tab'' True ds w = focusElement (last (tabbables ds)) (preventDefault w)"
  by (auto simp: handleKeydown_def Let_def)

lemma handleKeydown_Tab_elsewhere:
  "dialogRef w = Some c \<Longrightarrow> tabbables ds \<noteq> [] \<Longrightarrow>
   activeElement w \<noteq> Some (el_node (last (tabbables ds))) \<Longrightarrow>
     handleKeydown p ''Tab'' False ds w = w"
  by (simp add: handleKeydown_def Let_def)

lemma focusElement_active:
  "activeElement (focusElement el w) =
     (if can_focus el then Some (el_node el) else activeElement w)"
  by (simp add: prims)

text \<open>
  C3. The list the handler computes is not the list of the elements that can take the
  focus. The selector has \<^verbatim>\<open>:not([disabled])\<close> on \<^verbatim>\<open>button\<close> and \<^verbatim>\<open>input\<close> and not on
  \<^verbatim>\<open>textarea\<close> and \<^verbatim>\<open>select\<close>, and the filter drops a \<^verbatim>\<open>tabIndex\<close> of -1 only. A
  content with two buttons and a disabled textarea after them: the textarea is in the
  list and is its last element. With the focus on the second button, the last element
  that can take it, a Tab finds the focus not on the last of the list, and the handler
  does nothing, so the browser moves the focus on, out of the dialog. With the focus
  on the first button, a Shift+Tab prevents the default and calls \<^verbatim>\<open>focus()\<close> on the
  textarea, and the focus stays where it was. A button with \<^verbatim>\<open>tabindex="-2"\<close> is kept
  in the list as well.
\<close>

theorem C3_trap_keeps_unfocusable:
  "tabbables
     [control 0 ''button'', control 1 ''button'',
      (control 2 ''textarea'')\<lparr>has_disabled := True, can_focus := False\<rparr>] =
     [control 0 ''button'', control 1 ''button'',
      (control 2 ''textarea'')\<lparr>has_disabled := True, can_focus := False\<rparr>] \<and>
   dispatch (EvKeydown ''Tab'' False (Content 1)
       [control 0 ''button'', control 1 ''button'',
        (control 2 ''textarea'')\<lparr>has_disabled := True, can_focus := False\<rparr>])
     ((step (EvOpenWithRender 0) (mounted False (Some (Outside 0)) :: nat world))
        \<lparr>activeElement := Some (Content 1)\<rparr>) =
     (step (EvOpenWithRender 0) (mounted False (Some (Outside 0))))
        \<lparr>activeElement := Some (Content 1)\<rparr> \<and>
   activeElement (dispatch (EvKeydown ''Tab'' True (Content 0)
       [control 0 ''button'', control 1 ''button'',
        (control 2 ''textarea'')\<lparr>has_disabled := True, can_focus := False\<rparr>])
     ((step (EvOpenWithRender 0) (mounted False (Some (Outside 0)) :: nat world))
        \<lparr>activeElement := Some (Content 0), effects := []\<rparr>)) = Some (Content 0) \<and>
   effects (dispatch (EvKeydown ''Tab'' True (Content 0)
       [control 0 ''button'', control 1 ''button'',
        (control 2 ''textarea'')\<lparr>has_disabled := True, can_focus := False\<rparr>])
     ((step (EvOpenWithRender 0) (mounted False (Some (Outside 0)) :: nat world))
        \<lparr>activeElement := Some (Content 0), effects := []\<rparr>)) =
     [PreventDefault, CallFocus (Content 2), PreventDefault, CallFocus (Content 2)] \<and>
   tabIndex (last (tabbables
     [control 0 ''input'',
      (control 1 ''button'')\<lparr>tabindex_attr := Some ''-2'', tabIndex := -2\<rparr>])) = -2"
  by (simp add: tabbables_def matches_selector_def plain_def control_def handleKeydown_def
      turn_defs prims mounted_defs)

section \<open>Facts about a settlement\<close>

lemma resolve_effects:
  "effects (resolve (Some r) v w) =
     effects w @ CallResolvePromise (resolvePromise r) v # SetVisualState VClosed #
       (if prefersReducedMotionRef w
        then [SetIsMounted False, SetVisualState VUnmounted, SetPending None, QueueMicrotask]
        else [])"
  by (simp add: resolve_def unmountPath_def prims Let_def)

lemma resolve_defers_focus:
  "activeElement (resolve p v w) = activeElement w \<and>
   microtasks (resolve p v w) =
     microtasks w @
       (case p of None \<Rightarrow> []
        | Some r \<Rightarrow> if prefersReducedMotionRef w then [RestoreFocus] else [])"
  by (simp add: resolve_def unmountPath_def prims Let_def split: option.splits)

lemma animationEnd_defers_focus:
  "activeElement (handleOverlayAnimationEnd vs t c w) = activeElement w \<and>
   microtasks (handleOverlayAnimationEnd vs t c w) =
     microtasks w @
       (if t = c \<and> vs = VClosed \<and> restoreFocusOnCloseRef w then [RestoreFocus] else [])"
  by (simp add: handleOverlayAnimationEnd_def unmountPath_def prims Let_def)

lemma runMicrotask_RestoreFocus:
  "\<not> restoreFocusOnCloseRef (runMicrotask RestoreFocus w) \<and>
   activeElement (runMicrotask RestoreFocus w) =
     (case previousActiveElementRef w of None \<Rightarrow> activeElement w | Some n \<Rightarrow> Some n)"
  by (simp add: prims split: option.splits)

text \<open>
  A control called after its request was cleared. The request is opened, cancelled and,
  at the end of the animation, cleared; the content calls the \<^verbatim>\<open>cancel\<close> it kept. Its
  \<^verbatim>\<open>pending\<close> is still the request, so the guard of line 159 lets it pass: no promise
  changes, and \<^verbatim>\<open>visualState\<close> is set to closed while nothing is mounted and there is no
  \<^verbatim>\<open>PendingRequest\<close>.
\<close>

lemma kept_cancel_after_clearing:
  "visualState (run [EvOpenWithRender 0, EvCancel, EvAnimationEnd Overlay]
      (mounted False (Some (Outside 0)) :: nat world)) = VUnmounted \<and>
   pending (run [EvOpenWithRender 0, EvCancel, EvAnimationEnd Overlay]
      (mounted False (Some (Outside 0)) :: nat world)) = None \<and>
   visualState (step (EvKeptCancel \<lparr>render = 0, resolvePromise = 0\<rparr>)
      (run [EvOpenWithRender 0, EvCancel, EvAnimationEnd Overlay]
         (mounted False (Some (Outside 0)) :: nat world))) = VClosed \<and>
   \<not> isMounted (step (EvKeptCancel \<lparr>render = 0, resolvePromise = 0\<rparr>)
      (run [EvOpenWithRender 0, EvCancel, EvAnimationEnd Overlay]
         (mounted False (Some (Outside 0)) :: nat world))) \<and>
   promises (step (EvKeptCancel \<lparr>render = 0, resolvePromise = 0\<rparr>)
      (run [EvOpenWithRender 0, EvCancel, EvAnimationEnd Overlay]
         (mounted False (Some (Outside 0)) :: nat world))) = [Fulfilled Null]"
  by (simp add: turn_defs prims mounted_defs)

text \<open>
  C5. What holds of it is above: a pass through \<^verbatim>\<open>resolve\<close> or \<^verbatim>\<open>cancel\<close> calls the
  promise's \<^verbatim>\<open>resolve\<close> before anything of the unmount path, moves no focus itself and
  queues the callback, which focuses the previous element and clears the flag. That
  the focus move happens at most once per request fails. With reduced motion on, a
  request is opened and Escape goes down on the heading of \<^verbatim>\<open>FormModal\<close>, which has the
  focus. The key handler runs for the content \<^verbatim>\<open>div\<close> and again for the overlay, both
  with the \<^verbatim>\<open>cancel\<close> of the same render: each pass finds the flag set and queues the
  callback, and \<^verbatim>\<open>focus()\<close> is called twice.
\<close>

theorem C5_escape_restores_focus_twice:
  "effects (run [EvOpenWithRender 0, EvKeydown ''Escape'' False (Content 2) formModalElements]
      (mounted True (Some (Outside 0)) :: FormResult world)) =
     [PreventDefault, CallResolvePromise 0 Null, SetVisualState VClosed, SetIsMounted False,
      SetVisualState VUnmounted, SetPending None, QueueMicrotask,
      PreventDefault, CallResolvePromise 0 Null, SetVisualState VClosed, SetIsMounted False,
      SetVisualState VUnmounted, SetPending None, QueueMicrotask,
      CallFocus (Outside 0), CallFocus (Outside 0)]"
  by (simp add: turn_defs prims mounted_defs)

text \<open>
  C8. With the two refs on the elements the JSX attaches them to (as they are after
  every render that shows the layer), the wheel handler and the touch-move handler
  prevent the default exactly when the target is not inside the scroll region, that
  is, when it is neither the scroll \<^verbatim>\<open>div\<close> nor a node of the content below it. For a
  target inside the region the handlers do nothing.
\<close>

theorem C8_scroll_containment:
  "(isMounted (commit w) \<longrightarrow>
      dialogRef (commit w) = Some Dialog \<and> scrollContentRef (commit w) = Some ScrollContent) \<and>
   (dialogRef w = Some Dialog \<and> scrollContentRef w = Some ScrollContent \<longrightarrow>
      isInsideScrollContent t w = (t = Some ScrollContent \<or> (\<exists>n. t = Some (Content n))) \<and>
      handleWheelCapture t w = (if isInsideScrollContent t w then w else preventDefault w) \<and>
      handleTouchMoveCapture t w = (if isInsideScrollContent t w then w else preventDefault w) \<and>
      (isMounted w \<longrightarrow>
         effects (dispatch (EvWheel t) w) =
           effects w @ (if isInsideScrollContent t w then [] else [PreventDefault]) \<and>
         effects (dispatch (EvTouchMove t) w) =
           effects w @ (if isInsideScrollContent t w then [] else [PreventDefault])))"
proof (intro conjI impI)
  assume "isMounted (commit w)"
  then show "dialogRef (commit w) = Some Dialog" and "scrollContentRef (commit w) = Some ScrollContent"
    by (auto simp: commit_def prims Let_def split: if_splits)
next
  assume r: "dialogRef w = Some Dialog \<and> scrollContentRef w = Some ScrollContent"
  then show s: "isInsideScrollContent t w = (t = Some ScrollContent \<or> (\<exists>n. t = Some (Content n)))"
    by (cases t; cases "the t") (auto simp: isInsideScrollContent_def contains_def)
  have d: "isInsideScrollContent t w \<Longrightarrow> isInsideDialog t w"
    using r unfolding s by (auto simp: isInsideDialog_def contains_def)
  then show h: "handleWheelCapture t w = (if isInsideScrollContent t w then w else preventDefault w)"
    by (auto simp: handleWheelCapture_def)
  from d show k: "handleTouchMoveCapture t w =
      (if isInsideScrollContent t w then w else preventDefault w)"
    by (auto simp: handleTouchMoveCapture_def)
  assume "isMounted w"
  then show "effects (dispatch (EvWheel t) w) =
      effects w @ (if isInsideScrollContent t w then [] else [PreventDefault])"
    and "effects (dispatch (EvTouchMove t) w) =
      effects w @ (if isInsideScrollContent t w then [] else [PreventDefault])"
    by (simp_all add: h k prims)
qed

theorem C8_scroll_containment_witness:
  "effects (dispatch (EvWheel (Some (Content 8)))
      (step (EvOpenWithRender 0) (mounted False (Some (Outside 0)) :: nat world))) =
     effects (step (EvOpenWithRender 0) (mounted False (Some (Outside 0)) :: nat world)) \<and>
   effects (dispatch (EvTouchMove (Some Overlay))
      (step (EvOpenWithRender 0) (mounted False (Some (Outside 0)) :: nat world))) =
     effects (step (EvOpenWithRender 0) (mounted False (Some (Outside 0)) :: nat world)) @
       [PreventDefault] \<and>
   effects (dispatch (EvWheel (Some Dialog))
      (step (EvOpenWithRender 0) (mounted False (Some (Outside 0)) :: nat world))) =
     effects (step (EvOpenWithRender 0) (mounted False (Some (Outside 0)) :: nat world)) @
       [PreventDefault]"
proof -
  let ?w = "step (EvOpenWithRender 0) (mounted False (Some (Outside 0))) :: nat world"
  have r: "dialogRef ?w = Some Dialog \<and> scrollContentRef ?w = Some ScrollContent"
    and m: "isMounted ?w"
    by (simp_all add: turn_defs prims mounted_defs)
  note a = C8_scroll_containment [of ?w "Some (Content 8)"]
  note b = C8_scroll_containment [of ?w "Some Overlay"]
  note c = C8_scroll_containment [of ?w "Some Dialog"]
  from a r have ia: "isInsideScrollContent (Some (Content 8)) ?w" by blast
  from b r have ib: "\<not> isInsideScrollContent (Some Overlay) ?w" by blast
  from c r have ic: "\<not> isInsideScrollContent (Some Dialog) ?w" by blast
  from a r m have "effects (dispatch (EvWheel (Some (Content 8))) ?w) =
      effects ?w @ (if isInsideScrollContent (Some (Content 8)) ?w then [] else [PreventDefault])"
    by blast
  with ia have x: "effects (dispatch (EvWheel (Some (Content 8))) ?w) = effects ?w" by simp
  from b r m have "effects (dispatch (EvTouchMove (Some Overlay)) ?w) =
      effects ?w @ (if isInsideScrollContent (Some Overlay) ?w then [] else [PreventDefault])"
    by blast
  with ib have y: "effects (dispatch (EvTouchMove (Some Overlay)) ?w) =
      effects ?w @ [PreventDefault]" by simp
  from c r m have "effects (dispatch (EvWheel (Some Dialog)) ?w) =
      effects ?w @ (if isInsideScrollContent (Some Dialog) ?w then [] else [PreventDefault])"
    by blast
  with ic have z: "effects (dispatch (EvWheel (Some Dialog)) ?w) = effects ?w @ [PreventDefault]"
    by simp
  from x y z show ?thesis by blast
qed

text \<open>
  C9. The form scenario, run. A request is opened with \<^verbatim>\<open>FormModal\<close> as its content.
  Submitting the empty value leaves the promise unsettled, sets the error that asks for
  an address and focuses the input. After \<^verbatim>\<open>a@b.co\<close> is typed the error is gone, and
  submitting fulfils the promise with the object whose \<^verbatim>\<open>email\<close> is \<^verbatim>\<open>a@b.co\<close>, which the
  page turns into that string.
\<close>

theorem C9_form_scenario:
  "promises (snd (submit (newForm,
      step (EvOpenWithRender 0) (mounted False (Some (Outside 0)))))) = [Unsettled] \<and>
   error_state (fst (submit (newForm,
      step (EvOpenWithRender 0) (mounted False (Some (Outside 0)))))) = Some EmailRequired \<and>
   activeElement (snd (submit (newForm,
      step (EvOpenWithRender 0) (mounted False (Some (Outside 0)))))) = Some (Content 8) \<and>
   error_state (fst (typeEmail (js ''a@b.co'') (submit (newForm,
      step (EvOpenWithRender 0) (mounted False (Some (Outside 0))))))) = None \<and>
   promises (snd (submit (typeEmail (js ''a@b.co'') (submit (newForm,
      step (EvOpenWithRender 0) (mounted False (Some (Outside 0)))))))) =
     [Fulfilled (Value \<lparr>email = js ''a@b.co''\<rparr>)] \<and>
   handleOpen (Value \<lparr>email = js ''a@b.co''\<rparr>) = Value (js ''a@b.co'')"
  by (simp add: submit_def typeEmail_def handleSubmit_def handleInputChange_def focusInput_def
      newForm_def trim_def isValidEmail_def isLineTerminator_def isWhiteSpace_def js_def
      handleOpen_def turn_defs prims mounted_defs)

end
